theory Spec2Isabelle
  imports Main
begin

section \<open>Shared vocabulary\<close>

text \<open>
  The repository holds a Flask backend (\<^verbatim>\<open>api_server.py\<close>) and two command-line tools
  (\<^verbatim>\<open>Extra/lal.py\<close>, \<^verbatim>\<open>Extra/lal_simple.py\<close>). All three talk to two vendors.
  Every effect that a property is about is written into a trace, in the order in which the
  program performs it: a quota increment, a request sent to a vendor, a printed message, a question put
  to the user, a command handed to \<^verbatim>\<open>os.system\<close>, an exception that nothing catches.
\<close>

datatype vendor = Openai | Anthropic

text \<open>
  What the command-line tools print, by kind: the usage text, the report of
  \<^verbatim>\<open>--config\<close>, "key not set" for a vendor, "no API keys found", the framed command,
  the "Executing" line, the hint at the execute flag, \<^verbatim>\<open>Error:\<close> with a message, the hint
  at \<^verbatim>\<open>lal --config\<close>.
\<close>

datatype message =
    Usage_text
  | Config_text
  | Key_not_set vendor
  | No_keys_found
  | Generated_command string
  | Executing string
  | Hint_execute_flag
  | Error_text string
  | Hint_run_config

datatype event =
    Quota_increment string
  | Net_call vendor
  | Print message
  | Confirm_ask
  | Shell_exec string
  | Uncaught string

text \<open>
  \<^verbatim>\<open>os.getenv\<close> gives \<^verbatim>\<open>None\<close> or a string; the programs only test its truthiness,
  and an empty string is falsy.
\<close>

definition truthy_str :: "string option \<Rightarrow> bool" where
  "truthy_str k = (case k of None \<Rightarrow> False | Some s \<Rightarrow> s \<noteq> [])"

text \<open>
  \<^verbatim>\<open>str.strip()\<close> removes leading and trailing whitespace. Characters are code points
  below 256 here; Python counts as whitespace the code points 9 to 13, 28 to 32, 133 and 160
  among them.
\<close>

definition isspace :: "char \<Rightarrow> bool" where
  "isspace c = (let n = (of_char c :: nat) in
     (9 \<le> n \<and> n \<le> 13) \<or> (28 \<le> n \<and> n \<le> 32) \<or> n = 133 \<or> n = 160)"

definition strip :: "string \<Rightarrow> string" where
  "strip s = rev (dropWhile isspace (rev (dropWhile isspace s)))"

definition startswith :: "string \<Rightarrow> string \<Rightarrow> bool" where
  "startswith s p = (take (length p) s = p)"

section \<open>The server: \<^verbatim>\<open>api_server.py\<close>\<close>

subsection \<open>Quota tracker\<close>

text \<open>
  \<^verbatim>\<open>usage_tracker\<close> is a module-level dict from the key \<^verbatim>\<open>f"{user_id}:{today}"\<close> to a
  Python integer. The state of the server is that dict together with the trace of effects.
\<close>

record server_state =
  usage_tracker :: "string \<rightharpoonup> int"
  trace :: "event list"

definition DAILY_LIMIT :: int where
  "DAILY_LIMIT = 50"

definition quota_key :: "string \<Rightarrow> string \<Rightarrow> string" where
  "quota_key user_id today = user_id @ '':'' @ today"

text \<open>\<^verbatim>\<open>usage_tracker.get(key, 0)\<close>.\<close>

definition tracker_get :: "(string \<rightharpoonup> int) \<Rightarrow> string \<Rightarrow> int" where
  "tracker_get t key = (case t key of None \<Rightarrow> 0 | Some c \<Rightarrow> c)"

text \<open>
  \<^verbatim>\<open>check_rate_limit(user_id)\<close>. The day string \<^verbatim>\<open>datetime.now().strftime('%Y-%m-%d')\<close>
  that the function reads from the clock is the argument \<open>today\<close>. A key that is not in the
  dict is first stored with 0; then the count is compared with the limit.
\<close>

definition check_rate_limit :: "string \<Rightarrow> string \<Rightarrow> server_state \<Rightarrow> bool \<times> server_state" where
  "check_rate_limit user_id today s =
     (let key = quota_key user_id today;
          t1 = (if usage_tracker s key = None then (usage_tracker s)(key \<mapsto> 0)
                else usage_tracker s);
          c = the (t1 key)
      in if c \<ge> DAILY_LIMIT then (False, s\<lparr>usage_tracker := t1\<rparr>)
         else (True, s\<lparr>usage_tracker := t1(key \<mapsto> c + 1),
                        trace := trace s @ [Quota_increment key]\<rparr>))"

subsection \<open>Requests, responses and the vendors\<close>

text \<open>
  A parsed JSON value as \<^verbatim>\<open>request.get_json()\<close> returns it. An object is the list of
  its items (distinct keys, as in a dict). JSON numbers are restricted to integers.
\<close>

datatype json =
    JNull
  | JBool bool
  | JInt int
  | JStr string
  | JArr "json list"
  | JObj "(string \<times> json) list"

text \<open>
  What the client controls: the outcome of \<^verbatim>\<open>request.get_json()\<close> (\<open>Inl m\<close> when Flask
  raises, \<open>m\<close> being \<^verbatim>\<open>str\<close> of the exception) and \<^verbatim>\<open>request.remote_addr\<close>.
\<close>

record request =
  get_json :: "string + json"
  remote_addr :: "string option"

text \<open>
  What a vendor does with one HTTP request, as far as \<^verbatim>\<open>call_anthropic\<close> and
  \<^verbatim>\<open>call_openai\<close> can tell:
  \<^item> \<open>Ok_text t\<close>: status 200 and the payload holds the text field \<open>t\<close>;
  \<^item> \<open>Api_error e\<close>: another status; \<open>e\<close> is the error field as the f-string renders it;
  \<^item> \<open>Raises m\<close>: \<^verbatim>\<open>requests.post\<close>, \<^verbatim>\<open>response.json()\<close> or the field access raised
    an exception whose \<^verbatim>\<open>str\<close> is \<open>m\<close>.
\<close>

datatype upstream = Ok_text string | Api_error string | Raises string

text \<open>
  What the handler reads from outside while it serves one request: the clock in
  \<^verbatim>\<open>check_rate_limit\<close> (line 29), the clock again where the remaining count is computed
  (line 137), and the two vendors.
\<close>

record world =
  now_check :: string
  now_remaining :: string
  anthropic_reply :: upstream
  openai_reply :: upstream

record config =
  ANTHROPIC_API_KEY :: "string option"
  OPENAI_API_KEY :: "string option"

record response =
  status :: nat
  body :: "(string \<times> json) list"

text \<open>\<^verbatim>\<open>str\<close> of a Python integer.\<close>

fun str_nat :: "nat \<Rightarrow> string" where
  "str_nat n = (if n < 10 then [char_of (48 + n)]
                else str_nat (n div 10) @ [char_of (48 + n mod 10)])"

declare str_nat.simps [simp del]

definition str_int :: "int \<Rightarrow> string" where
  "str_int i = (if i < 0 then CHR ''-'' # str_nat (nat (- i)) else str_nat (nat i))"

text \<open>Python truthiness of a JSON value (\<^verbatim>\<open>not data\<close>).\<close>

fun truthy :: "json \<Rightarrow> bool" where
  "truthy JNull = False"
| "truthy (JBool b) = b"
| "truthy (JInt n) = (n \<noteq> 0)"
| "truthy (JStr s) = (s \<noteq> [])"
| "truthy (JArr xs) = (xs \<noteq> [])"
| "truthy (JObj kvs) = (kvs \<noteq> [])"

fun contains_str :: "string \<Rightarrow> string \<Rightarrow> bool" where
  "contains_str [] p = (p = [])"
| "contains_str (c # cs) p = (startswith (c # cs) p \<or> contains_str cs p)"

text \<open>
  \<^verbatim>\<open>'prompt' in data\<close>: key lookup in a dict, membership in a list, substring test in a
  string, \<^verbatim>\<open>TypeError\<close> otherwise. The messages are CPython's.
\<close>

fun prompt_in :: "json \<Rightarrow> string + bool" where
  "prompt_in (JObj kvs) = Inr (map_of kvs ''prompt'' \<noteq> None)"
| "prompt_in (JArr xs) = Inr (List.member xs (JStr ''prompt''))"
| "prompt_in (JStr s) = Inr (contains_str s ''prompt'')"
| "prompt_in (JInt n) = Inl ''argument of type 'int' is not iterable''"
| "prompt_in (JBool b) = Inl ''argument of type 'bool' is not iterable''"
| "prompt_in JNull = Inl ''argument of type 'NoneType' is not iterable''"

text \<open>\<^verbatim>\<open>data['prompt']\<close>. The messages are CPython's; \<open>CHR 0x27\<close> is the single quote.\<close>

fun subscript_prompt :: "json \<Rightarrow> string + json" where
  "subscript_prompt (JObj kvs) =
     (case map_of kvs ''prompt'' of
        None \<Rightarrow> Inl (CHR 0x27 # ''prompt'' @ [CHR 0x27])
      | Some v \<Rightarrow> Inr v)"
| "subscript_prompt (JArr xs) = Inl ''list indices must be integers or slices, not str''"
| "subscript_prompt (JStr s) = Inl (''string indices must be integers, not 'str'' @ [CHR 0x27])"
| "subscript_prompt (JInt n) = Inl (CHR 0x27 # ''int' object is not subscriptable'')"
| "subscript_prompt (JBool b) = Inl (CHR 0x27 # ''bool' object is not subscriptable'')"
| "subscript_prompt JNull = Inl (CHR 0x27 # ''NoneType' object is not subscriptable'')"

text \<open>
  \<^verbatim>\<open>get_user_id(request)\<close>: the MD5 hex digest of the caller's address. \<^verbatim>\<open>hashlib\<close> is
  a library, so the digest is the parameter \<open>md5\<close>. An absent address makes
  \<^verbatim>\<open>ip.encode()\<close> raise.
\<close>

definition get_user_id :: "(string \<Rightarrow> string) \<Rightarrow> request \<Rightarrow> string + string" where
  "get_user_id md5 req =
     (case remote_addr req of
        None \<Rightarrow> Inl (CHR 0x27 # ''NoneType' object has no attribute 'encode'' @ [CHR 0x27])
      | Some ip \<Rightarrow> Inr (md5 ip))"

text \<open>
  \<^verbatim>\<open>call_anthropic(prompt)\<close> and \<^verbatim>\<open>call_openai(prompt)\<close>: one request is sent, whatever
  comes of it. \<open>Inl m\<close> is a raised exception with \<^verbatim>\<open>str\<close> \<open>m\<close>, \<open>Inr c\<close> the returned
  command.
\<close>

definition vendor_result :: "upstream \<Rightarrow> string + string" where
  "vendor_result r =
     (case r of
        Ok_text t \<Rightarrow> Inr (strip t)
      | Api_error e \<Rightarrow> Inl (''API error: '' @ e)
      | Raises m \<Rightarrow> Inl m)"

definition call_anthropic :: "world \<Rightarrow> server_state \<Rightarrow> (string + string) \<times> server_state" where
  "call_anthropic w s =
     (vendor_result (anthropic_reply w), s\<lparr>trace := trace s @ [Net_call Anthropic]\<rparr>)"

definition call_openai :: "world \<Rightarrow> server_state \<Rightarrow> (string + string) \<times> server_state" where
  "call_openai w s =
     (vendor_result (openai_reply w), s\<lparr>trace := trace s @ [Net_call Openai]\<rparr>)"

text \<open>
  The three ways in which a block of the handler ends: it leaves the handler with a
  response, it raises, or it binds \<^verbatim>\<open>command\<close>.
\<close>

datatype flow = Return response | Raise string | Command string

definition jsonify_error :: "nat \<Rightarrow> string \<Rightarrow> response" where
  "jsonify_error code msg = \<lparr>status = code, body = [(''error'', JStr msg)]\<rparr>"

definition rate_limit_response :: response where
  "rate_limit_response =
     \<lparr>status = 429,
      body = [(''error'', JStr ''Rate limit exceeded''),
              (''message'', JStr (''Daily limit of '' @ str_int DAILY_LIMIT
                                  @ '' requests reached. Try again tomorrow.''))]\<rparr>"

definition flow_of :: "(string + string) \<times> server_state \<Rightarrow> flow \<times> server_state" where
  "flow_of r = (case r of (Inl m, s) \<Rightarrow> (Raise m, s) | (Inr c, s) \<Rightarrow> (Command c, s))"

text \<open>The body of the inner \<^verbatim>\<open>try\<close> (lines 120 to 125).\<close>

definition primary_call :: "config \<Rightarrow> world \<Rightarrow> server_state \<Rightarrow> flow \<times> server_state" where
  "primary_call cfg w s =
     (if truthy_str (ANTHROPIC_API_KEY cfg) then flow_of (call_anthropic w s)
      else if truthy_str (OPENAI_API_KEY cfg) then flow_of (call_openai w s)
      else (Return (jsonify_error 500 ''No API keys configured on server''), s))"

text \<open>The inner \<^verbatim>\<open>try\<close> with its \<^verbatim>\<open>except\<close> clause (lines 119 to 134).\<close>

definition generate_with_fallback :: "config \<Rightarrow> world \<Rightarrow> server_state \<Rightarrow> flow \<times> server_state" where
  "generate_with_fallback cfg w s =
     (case primary_call cfg w s of
        (Raise api_error, s1) \<Rightarrow>
          if startswith api_error ''API error'' \<and> truthy_str (OPENAI_API_KEY cfg)
             \<and> truthy_str (ANTHROPIC_API_KEY cfg)
          then (case call_openai w s1 of
                  (Inl fallback_error, s2) \<Rightarrow>
                    (Return (jsonify_error 500 (''Both APIs failed: '' @ fallback_error)), s2)
                | (Inr command, s2) \<Rightarrow> (Command command, s2))
          else (Raise api_error, s1)
      | other \<Rightarrow> other)"

text \<open>
  \<^verbatim>\<open>generate_command()\<close>, the handler of \<^verbatim>\<open>POST /generate\<close>. The outer \<^verbatim>\<open>except\<close>
  turns every exception into a 500 response; state changes made before the exception
  stay.
\<close>

definition generate_command ::
  "(string \<Rightarrow> string) \<Rightarrow> config \<Rightarrow> world \<Rightarrow> request \<Rightarrow> server_state \<Rightarrow> response \<times> server_state" where
  "generate_command md5 cfg w req s =
     (case get_json req of
        Inl e \<Rightarrow> (jsonify_error 500 e, s)
      | Inr data \<Rightarrow>
          if \<not> truthy data then (jsonify_error 400 ''Missing prompt'', s)
          else (case prompt_in data of
                  Inl e \<Rightarrow> (jsonify_error 500 e, s)
                | Inr False \<Rightarrow> (jsonify_error 400 ''Missing prompt'', s)
                | Inr True \<Rightarrow>
                    (case subscript_prompt data of
                       Inl e \<Rightarrow> (jsonify_error 500 e, s)
                     | Inr prompt \<Rightarrow>
                         (case get_user_id md5 req of
                            Inl e \<Rightarrow> (jsonify_error 500 e, s)
                          | Inr user_id \<Rightarrow>
                              (case check_rate_limit user_id (now_check w) s of
                                 (False, s1) \<Rightarrow> (rate_limit_response, s1)
                               | (True, s1) \<Rightarrow>
                                   (case generate_with_fallback cfg w s1 of
                                      (Return r, s2) \<Rightarrow> (r, s2)
                                    | (Raise e, s2) \<Rightarrow> (jsonify_error 500 e, s2)
                                    | (Command command, s2) \<Rightarrow>
                                        (let remaining = DAILY_LIMIT -
                                               tracker_get (usage_tracker s2)
                                                 (quota_key user_id (now_remaining w))
                                         in (\<lparr>status = 200,
                                              body = [(''command'', JStr command),
                                                      (''remaining_requests'', JInt remaining)]\<rparr>,
                                             s2))))))))"

text \<open>
  \<^verbatim>\<open>get_usage(user_token)\<close>, the handler of \<^verbatim>\<open>GET /usage/<user_token>\<close>; \<open>today\<close> is
  its clock reading.
\<close>

definition get_usage :: "string \<Rightarrow> string \<Rightarrow> server_state \<Rightarrow> response \<times> server_state" where
  "get_usage user_token today s =
     (let key = quota_key user_token today;
          used = tracker_get (usage_tracker s) key;
          remaining = DAILY_LIMIT - used
      in (\<lparr>status = 200,
           body = [(''daily_limit'', JInt DAILY_LIMIT),
                   (''used_today'', JInt used),
                   (''remaining_today'', JInt remaining),
                   (''date'', JStr today)]\<rparr>,
          s))"

text \<open>Serving requests one after the other; the responses come back in order.\<close>

fun serve_all ::
  "(string \<Rightarrow> string) \<Rightarrow> config \<Rightarrow> (world \<times> request) list \<Rightarrow> server_state
     \<Rightarrow> response list \<times> server_state" where
  "serve_all md5 cfg [] s = ([], s)"
| "serve_all md5 cfg ((w, req) # rest) s =
     (case generate_command md5 cfg w req s of
        (r, s1) \<Rightarrow> (case serve_all md5 cfg rest s1 of (rs, s2) \<Rightarrow> (r # rs, s2)))"

text \<open>The requests sent to vendors, as they appear in a trace.\<close>

definition net_calls :: "event list \<Rightarrow> vendor list" where
  "net_calls tr = concat (map (\<lambda>e. case e of Net_call v \<Rightarrow> [v] | _ \<Rightarrow> []) tr)"

definition shell_execs :: "event list \<Rightarrow> string list" where
  "shell_execs tr = concat (map (\<lambda>e. case e of Shell_exec c \<Rightarrow> [c] | _ \<Rightarrow> []) tr)"

section \<open>The command-line tool: \<^verbatim>\<open>Extra/lal.py\<close>\<close>

text \<open>
  What the tool reads from outside in one run: the two environment variables, what each
  vendor's SDK does with one \<^verbatim>\<open>generate_command\<close>, and the user's answer to
  \<^verbatim>\<open>Confirm.ask\<close> (\<open>Inl m\<close> when it raises), and what the library \<^verbatim>\<open>rich\<close> makes of a
  text with markup: \<open>rich_error env text\<close> is \<open>None\<close> when it renders \<open>text\<close> and \<open>Some m\<close> when
  it raises \<^verbatim>\<open>MarkupError\<close> with the message \<open>m\<close>.
  \<^item> \<open>Sdk_text t\<close>: the request was sent and the response holds the text \<open>t\<close>;
  \<^item> \<open>Sdk_raises m\<close>: the request was sent and the SDK, or the field access, raised;
  \<^item> \<open>Sdk_unavailable m\<close>: the \<^verbatim>\<open>import\<close> or the client's construction raised, before
    any request.
\<close>

datatype sdk_reply = Sdk_text string | Sdk_raises string | Sdk_unavailable string

record cli_env =
  env_anthropic_key :: "string option"
  env_openai_key :: "string option"
  sdk_anthropic :: sdk_reply
  sdk_openai :: sdk_reply
  confirm_answer :: "string + bool"
  rich_error :: "string \<Rightarrow> string option"

text \<open>The two provider classes; the fields are \<^verbatim>\<open>api_key\<close> and \<^verbatim>\<open>model\<close>.\<close>

datatype ai_provider = OpenAIProvider string string | AnthropicProvider string string

fun provider_vendor :: "ai_provider \<Rightarrow> vendor" where
  "provider_vendor (OpenAIProvider k m) = Openai"
| "provider_vendor (AnthropicProvider k m) = Anthropic"

definition sdk_generate :: "vendor \<Rightarrow> string \<Rightarrow> sdk_reply \<Rightarrow> (string + string) \<times> event list" where
  "sdk_generate v name r =
     (case r of
        Sdk_text t \<Rightarrow> (Inr (strip t), [Net_call v])
      | Sdk_raises m \<Rightarrow> (Inl (name @ '' API error: '' @ m), [Net_call v])
      | Sdk_unavailable m \<Rightarrow> (Inl (name @ '' API error: '' @ m), []))"

text \<open>
  \<^verbatim>\<open>OpenAIProvider.generate_command\<close> and \<^verbatim>\<open>AnthropicProvider.generate_command\<close>:
  the result and the events of the call.
\<close>

fun provider_generate :: "ai_provider \<Rightarrow> cli_env \<Rightarrow> (string + string) \<times> event list" where
  "provider_generate (OpenAIProvider k m) env = sdk_generate Openai ''OpenAI'' (sdk_openai env)"
| "provider_generate (AnthropicProvider k m) env =
     sdk_generate Anthropic ''Anthropic'' (sdk_anthropic env)"

text \<open>\<^verbatim>\<open>get_ai_provider()\<close>; \<open>Inl m\<close> is the raised exception.\<close>

definition get_ai_provider :: "cli_env \<Rightarrow> string + ai_provider" where
  "get_ai_provider env =
     (if truthy_str (env_anthropic_key env)
      then Inr (AnthropicProvider (the (env_anthropic_key env)) ''claude-3-5-haiku-20241022'')
      else if truthy_str (env_openai_key env)
      then Inr (OpenAIProvider (the (env_openai_key env)) ''gpt-4o-mini'')
      else Inl ''No AI provider configured. Set OPENAI_API_KEY or ANTHROPIC_API_KEY environment variable.'')"

text \<open>
  The arguments that \<^verbatim>\<open>click\<close> passes to \<^verbatim>\<open>main\<close>. \<^verbatim>\<open>--provider\<close> is a
  \<^verbatim>\<open>click.Choice\<close> of the two vendors, so no other value reaches \<^verbatim>\<open>main\<close>.
\<close>

record cli_args =
  prompt :: "string option"
  execute :: bool
  provider :: "vendor option"
  model :: "string option"
  config :: bool

text \<open>\<^verbatim>\<open>model or default\<close>.\<close>

definition model_or :: "string option \<Rightarrow> string \<Rightarrow> string" where
  "model_or m d = (if truthy_str m then the m else d)"

text \<open>
  The provider selection at the head of the \<^verbatim>\<open>try\<close> block of \<^verbatim>\<open>main\<close> (lines 159 to
  173): it binds \<^verbatim>\<open>ai\<close>, or prints that a key is not set and returns, or raises out of
  \<^verbatim>\<open>get_ai_provider\<close>.
\<close>

datatype selection = Selected ai_provider | Print_and_return message | Selection_raises string

definition select_provider :: "cli_args \<Rightarrow> cli_env \<Rightarrow> selection" where
  "select_provider a env =
     (case provider a of
        Some Openai \<Rightarrow>
          if \<not> truthy_str (env_openai_key env) then Print_and_return (Key_not_set Openai)
          else Selected (OpenAIProvider (the (env_openai_key env)) (model_or (model a) ''gpt-4o-mini''))
      | Some Anthropic \<Rightarrow>
          if \<not> truthy_str (env_anthropic_key env) then Print_and_return (Key_not_set Anthropic)
          else Selected (AnthropicProvider (the (env_anthropic_key env))
                           (model_or (model a) ''claude-3-5-haiku-20241022''))
      | None \<Rightarrow>
          (case get_ai_provider env of
             Inl m \<Rightarrow> Selection_raises m
           | Inr ai \<Rightarrow> Selected ai))"

text \<open>
  \<^verbatim>\<open>console.print\<close> of a text in which the value \<open>v\<close> stands between the fixed parts
  \<open>before\<close> and \<open>after\<close> of an f-string. \<^verbatim>\<open>rich\<close> reads tags in square brackets out of the
  whole text and raises \<^verbatim>\<open>MarkupError\<close> on a closing tag that closes nothing. The fixed
  parts used by \<^verbatim>\<open>lal.py\<close> are balanced, and a tag starts with an opening bracket, so a
  value without one is printed; with one, the outcome is \<^verbatim>\<open>rich\<close>'s. \<open>None\<close> means printed,
  \<open>Some m\<close> a raised \<^verbatim>\<open>MarkupError\<close> whose \<^verbatim>\<open>str\<close> is \<open>m\<close>.
\<close>

definition markup_error :: "cli_env \<Rightarrow> string \<Rightarrow> string \<Rightarrow> string \<Rightarrow> string option" where
  "markup_error env before v after =
     (if List.member v (CHR ''['') then rich_error env (before @ v @ after) else None)"

text \<open>
  The \<^verbatim>\<open>except Exception as e\<close> clause of \<^verbatim>\<open>main\<close>. An exception raised by its own
  \<^verbatim>\<open>console.print\<close> is caught by nothing and ends the run.
\<close>

definition lal_except :: "cli_env \<Rightarrow> string \<Rightarrow> event list" where
  "lal_except env e =
     (case markup_error env ''[red]Error:[/] '' e [] of
        Some m \<Rightarrow> [Uncaught m]
      | None \<Rightarrow>
          Print (Error_text e) # (if contains_str e ''API'' then [Print Hint_run_config] else []))"

text \<open>
  \<^verbatim>\<open>main\<close> of \<^verbatim>\<open>lal.py\<close>; the result is the trace of the run. \<open>Shell_exec c\<close> stands for
  the call \<^verbatim>\<open>os.system(c)\<close>. The command is printed twice inside markup, in the panel
  (line 180) and in the line before \<^verbatim>\<open>os.system\<close> (line 189); a \<^verbatim>\<open>MarkupError\<close> of either
  goes to the \<^verbatim>\<open>except\<close> clause, and the command is not executed.
\<close>

definition lal_main :: "cli_args \<Rightarrow> cli_env \<Rightarrow> event list" where
  "lal_main a env =
     (if config a then [Print Config_text]
      else if \<not> truthy_str (prompt a) then [Print Usage_text]
      else (case select_provider a env of
              Print_and_return msg \<Rightarrow> [Print msg]
            | Selection_raises e \<Rightarrow> lal_except env e
            | Selected ai \<Rightarrow>
                (case provider_generate ai env of
                   (Inl e, tr) \<Rightarrow> tr @ lal_except env e
                 | (Inr command, tr) \<Rightarrow>
                     (case markup_error env ''[bold green]'' command ''[/]'' of
                        Some m \<Rightarrow> tr @ lal_except env m
                      | None \<Rightarrow>
                          tr @ [Print (Generated_command command)] @
                          (if execute a then
                             (case confirm_answer env of
                                Inl e \<Rightarrow> Confirm_ask # lal_except env e
                              | Inr True \<Rightarrow>
                                  Confirm_ask #
                                  (case markup_error env (CHR 0x0A # ''[dim]Executing:[/] '') command [] of
                                     Some m \<Rightarrow> lal_except env m
                                   | None \<Rightarrow> [Print (Executing command), Shell_exec command])
                              | Inr False \<Rightarrow> [Confirm_ask])
                           else [Print Hint_execute_flag])))))"

section \<open>The dependency-free tool: \<^verbatim>\<open>Extra/lal_simple.py\<close>\<close>

text \<open>
  \<^verbatim>\<open>make_anthropic_request\<close> and \<^verbatim>\<open>make_openai_request\<close> wrap every exception of the
  request in \<^verbatim>\<open>Exception(f"API error: {str(e)}")\<close>.
\<close>

datatype http_reply = Http_text string | Http_raises string

record simple_env =
  simple_anthropic_key :: "string option"
  simple_openai_key :: "string option"
  http_anthropic :: http_reply
  http_openai :: http_reply
  input_line :: "string + string"

definition make_request :: "vendor \<Rightarrow> http_reply \<Rightarrow> (string + string) \<times> event list" where
  "make_request v r =
     (case r of
        Http_text t \<Rightarrow> (Inr (strip t), [Net_call v])
      | Http_raises m \<Rightarrow> (Inl (''API error: '' @ m), [Net_call v]))"

definition make_anthropic_request :: "simple_env \<Rightarrow> (string + string) \<times> event list" where
  "make_anthropic_request env = make_request Anthropic (http_anthropic env)"

definition make_openai_request :: "simple_env \<Rightarrow> (string + string) \<times> event list" where
  "make_openai_request env = make_request Openai (http_openai env)"

text \<open>
  \<^verbatim>\<open>str.lower()\<close> on code points below 256: the capitals are A to Z and 192 to 222 without
  the multiplication sign 215, and the small letter lies 32 higher.
\<close>

definition lower_char :: "char \<Rightarrow> char" where
  "lower_char c = (let n = (of_char c :: nat) in
     if (65 \<le> n \<and> n \<le> 90) \<or> (192 \<le> n \<and> n \<le> 222 \<and> n \<noteq> 215) then char_of (n + 32) else c)"

definition lower :: "string \<Rightarrow> string" where
  "lower s = map lower_char s"

text \<open>\<^verbatim>\<open>sys.argv.index(x)\<close> for an \<open>x\<close> that occurs in the list.\<close>

definition index_of :: "string list \<Rightarrow> string \<Rightarrow> nat" where
  "index_of xs x = length (takeWhile (\<lambda>y. y \<noteq> x) xs)"

definition simple_execute_flag :: "string list \<Rightarrow> bool" where
  "simple_execute_flag argv = (List.member argv ''--execute'' \<or> List.member argv ''-e'')"

definition simple_provider :: "string list \<Rightarrow> string option" where
  "simple_provider argv =
     (if List.member argv ''--provider''
      then (let idx = index_of argv ''--provider''
            in if idx + 1 < length argv then Some (argv ! (idx + 1)) else None)
      else None)"

text \<open>
  The choice of the request in the \<^verbatim>\<open>try\<close> block (lines 167 to 182): \<open>Inl msg\<close> prints
  and returns, \<open>Inr r\<close> is the outcome of the request that was made.
\<close>

definition simple_choose :: "string option \<Rightarrow> simple_env \<Rightarrow> message + ((string + string) \<times> event list)" where
  "simple_choose p env =
     (if p = Some ''openai'' then
        (if \<not> truthy_str (simple_openai_key env) then Inl (Key_not_set Openai)
         else Inr (make_openai_request env))
      else if p = Some ''anthropic'' then
        (if \<not> truthy_str (simple_anthropic_key env) then Inl (Key_not_set Anthropic)
         else Inr (make_anthropic_request env))
      else if truthy_str (simple_anthropic_key env) then Inr (make_anthropic_request env)
      else Inr (make_openai_request env))"

text \<open>\<^verbatim>\<open>main\<close> of \<^verbatim>\<open>lal_simple.py\<close>; \<open>argv\<close> is \<^verbatim>\<open>sys.argv\<close>.\<close>

definition lal_simple_main :: "string list \<Rightarrow> simple_env \<Rightarrow> event list" where
  "lal_simple_main argv env =
     (if length argv < 2 then [Print Usage_text]
      else if argv ! 1 = ''--config'' then [Print Config_text]
      else if \<not> truthy_str (simple_anthropic_key env) \<and> \<not> truthy_str (simple_openai_key env)
        then [Print No_keys_found]
      else (case simple_choose (simple_provider argv) env of
              Inl msg \<Rightarrow> [Print msg]
            | Inr (Inl e, tr) \<Rightarrow> tr @ [Print (Error_text e)]
            | Inr (Inr command, tr) \<Rightarrow>
                tr @ [Print (Generated_command command)] @
                (if simple_execute_flag argv then
                   (case input_line env of
                      Inl e \<Rightarrow> [Confirm_ask, Print (Error_text e)]
                    | Inr response \<Rightarrow>
                        if lower response = ''y''
                        then [Confirm_ask, Print (Executing command), Shell_exec command]
                        else [Confirm_ask])
                 else [Print Hint_execute_flag])))"

section \<open>Vocabulary of the properties\<close>

text \<open>
  A request whose body is a JSON object with the key \<^verbatim>\<open>prompt\<close>: with a known caller
  address, these are the requests that get as far as the quota check.
\<close>

definition has_prompt :: "request \<Rightarrow> bool" where
  "has_prompt req =
     (case get_json req of
        Inr (JObj kvs) \<Rightarrow> map_of kvs ''prompt'' \<noteq> None
      | _ \<Rightarrow> False)"

text \<open>
  The vendors answer the request with the text \<open>t\<close>: the vendor called first does (Anthropic
  when its key is configured, otherwise OpenAI), or both keys are configured, Anthropic
  answers with a non-200 status and OpenAI answers with \<open>t\<close>.
\<close>

definition vendor_answers :: "config \<Rightarrow> world \<Rightarrow> string \<Rightarrow> bool" where
  "vendor_answers cfg w t =
     ((truthy_str (ANTHROPIC_API_KEY cfg) \<and> anthropic_reply w = Ok_text t) \<or>
      (\<not> truthy_str (ANTHROPIC_API_KEY cfg) \<and> truthy_str (OPENAI_API_KEY cfg) \<and>
         openai_reply w = Ok_text t) \<or>
      (truthy_str (ANTHROPIC_API_KEY cfg) \<and> truthy_str (OPENAI_API_KEY cfg) \<and>
         (case anthropic_reply w of Api_error e \<Rightarrow> True | _ \<Rightarrow> False) \<and>
         openai_reply w = Ok_text t))"

text \<open>An integer field of a response body.\<close>

definition int_field :: "response \<Rightarrow> string \<Rightarrow> int option" where
  "int_field r k = (case map_of (body r) k of Some (JInt n) \<Rightarrow> Some n | _ \<Rightarrow> None)"

text \<open>The environment variable of a vendor, as \<^verbatim>\<open>lal.py\<close> reads it.\<close>

fun env_key :: "vendor \<Rightarrow> cli_env \<Rightarrow> string option" where
  "env_key Openai env = env_openai_key env"
| "env_key Anthropic env = env_anthropic_key env"

text \<open>What the SDK of a vendor does in this run, and whether a request leaves the machine.\<close>

fun sdk_of :: "vendor \<Rightarrow> cli_env \<Rightarrow> sdk_reply" where
  "sdk_of Openai env = sdk_openai env"
| "sdk_of Anthropic env = sdk_anthropic env"

fun request_sent :: "sdk_reply \<Rightarrow> bool" where
  "request_sent (Sdk_text t) = True"
| "request_sent (Sdk_raises m) = True"
| "request_sent (Sdk_unavailable m) = False"

section \<open>Auxiliary lemmas\<close>

subsection \<open>The handler of \<^verbatim>\<open>/generate\<close>, step by step\<close>

lemma check_rate_limit_over:
  "tracker_get (usage_tracker s) (quota_key u d) \<ge> DAILY_LIMIT \<Longrightarrow>
   check_rate_limit u d s = (False, s)"
  by (auto simp: check_rate_limit_def Let_def tracker_get_def DAILY_LIMIT_def split: option.splits)

lemma check_rate_limit_under:
  "tracker_get (usage_tracker s) (quota_key u d) < DAILY_LIMIT \<Longrightarrow>
   check_rate_limit u d s =
     (True, s\<lparr>usage_tracker := (usage_tracker s)(quota_key u d \<mapsto>
                 tracker_get (usage_tracker s) (quota_key u d) + 1),
              trace := trace s @ [Quota_increment (quota_key u d)]\<rparr>)"
  by (auto simp: check_rate_limit_def Let_def tracker_get_def DAILY_LIMIT_def split: option.splits)

lemma generate_with_fallback_anthropic:
  "truthy_str (ANTHROPIC_API_KEY cfg) \<Longrightarrow>
   generate_with_fallback cfg w s =
     (case vendor_result (anthropic_reply w) of
        Inr c \<Rightarrow> (Command c, s\<lparr>trace := trace s @ [Net_call Anthropic]\<rparr>)
      | Inl m \<Rightarrow>
          if startswith m ''API error'' \<and> truthy_str (OPENAI_API_KEY cfg)
          then (case vendor_result (openai_reply w) of
                  Inl fm \<Rightarrow> (Return (jsonify_error 500 (''Both APIs failed: '' @ fm)),
                              s\<lparr>trace := trace s @ [Net_call Anthropic, Net_call Openai]\<rparr>)
                | Inr c \<Rightarrow> (Command c, s\<lparr>trace := trace s @ [Net_call Anthropic, Net_call Openai]\<rparr>))
          else (Raise m, s\<lparr>trace := trace s @ [Net_call Anthropic]\<rparr>))"
  by (simp add: generate_with_fallback_def primary_call_def flow_of_def call_anthropic_def
      call_openai_def split: sum.splits)

lemma generate_with_fallback_openai:
  "\<not> truthy_str (ANTHROPIC_API_KEY cfg) \<Longrightarrow> truthy_str (OPENAI_API_KEY cfg) \<Longrightarrow>
   generate_with_fallback cfg w s =
     (case vendor_result (openai_reply w) of
        Inr c \<Rightarrow> (Command c, s\<lparr>trace := trace s @ [Net_call Openai]\<rparr>)
      | Inl m \<Rightarrow> (Raise m, s\<lparr>trace := trace s @ [Net_call Openai]\<rparr>))"
  by (simp add: generate_with_fallback_def primary_call_def flow_of_def call_anthropic_def
      call_openai_def split: sum.splits)

lemma generate_with_fallback_no_keys:
  "\<not> truthy_str (ANTHROPIC_API_KEY cfg) \<Longrightarrow> \<not> truthy_str (OPENAI_API_KEY cfg) \<Longrightarrow>
   generate_with_fallback cfg w s =
     (Return (jsonify_error 500 ''No API keys configured on server''), s)"
  by (simp add: generate_with_fallback_def primary_call_def)

lemma generate_with_fallback_frame:
  "generate_with_fallback cfg w s = (f, s') \<Longrightarrow>
   usage_tracker s' = usage_tracker s \<and>
   (\<exists>vs. trace s' = trace s @ map Net_call vs \<and> length vs \<le> 2)"
proof (cases "truthy_str (ANTHROPIC_API_KEY cfg)")
  case True
  assume a: "generate_with_fallback cfg w s = (f, s')"
  have "s' = s\<lparr>trace := trace s @ map Net_call [Anthropic]\<rparr> \<or>
        s' = s\<lparr>trace := trace s @ map Net_call [Anthropic, Openai]\<rparr>"
    using a True by (auto simp: generate_with_fallback_anthropic split: sum.splits if_splits)
  then show ?thesis
  proof
    assume "s' = s\<lparr>trace := trace s @ map Net_call [Anthropic]\<rparr>"
    then have "usage_tracker s' = usage_tracker s" "trace s' = trace s @ map Net_call [Anthropic]" by simp_all
    then show ?thesis by (intro conjI exI[of _ "[Anthropic]"]) simp_all
  next
    assume "s' = s\<lparr>trace := trace s @ map Net_call [Anthropic, Openai]\<rparr>"
    then have "usage_tracker s' = usage_tracker s" "trace s' = trace s @ map Net_call [Anthropic, Openai]" by simp_all
    then show ?thesis by (intro conjI exI[of _ "[Anthropic, Openai]"]) simp_all
  qed
next
  case False
  assume a: "generate_with_fallback cfg w s = (f, s')"
  show ?thesis
  proof (cases "truthy_str (OPENAI_API_KEY cfg)")
    case True
    have "s' = s\<lparr>trace := trace s @ map Net_call [Openai]\<rparr>"
      using a True False by (auto simp: generate_with_fallback_openai split: sum.splits)
    then have "usage_tracker s' = usage_tracker s" "trace s' = trace s @ map Net_call [Openai]" by simp_all
    then show ?thesis by (intro conjI exI[of _ "[Openai]"]) simp_all
  next
    case F2: False
    have "s' = s" using a False F2 by (simp add: generate_with_fallback_no_keys)
    then show ?thesis by (intro conjI exI[of _ "[]"]) simp_all
  qed
qed

lemma generate_command_with_prompt:
  "has_prompt req \<Longrightarrow> remote_addr req = Some ip \<Longrightarrow>
   generate_command digest cfg w req s =
     (case check_rate_limit (digest ip) (now_check w) s of
        (False, s1) \<Rightarrow> (rate_limit_response, s1)
      | (True, s1) \<Rightarrow>
          (case generate_with_fallback cfg w s1 of
             (Return r, s2) \<Rightarrow> (r, s2)
           | (Raise e, s2) \<Rightarrow> (jsonify_error 500 e, s2)
           | (Command command, s2) \<Rightarrow>
               (let remaining = DAILY_LIMIT - tracker_get (usage_tracker s2)
                                  (quota_key (digest ip) (now_remaining w))
                in (\<lparr>status = 200,
                     body = [(''command'', JStr command),
                             (''remaining_requests'', JInt remaining)]\<rparr>, s2))))"
  by (auto simp: has_prompt_def generate_command_def get_user_id_def
      split: sum.splits json.splits option.splits)

text \<open>
  Every other request is answered 400 or 500 before the quota check, with the state as it
  was.
\<close>

lemma generate_command_stops_early:
  "\<not> has_prompt req \<or> remote_addr req = None \<Longrightarrow>
   snd (generate_command digest cfg w req s) = s \<and>
   status (fst (generate_command digest cfg w req s)) \<in> {400, 500}"
proof (cases "get_json req")
  case (Inl e)
  then show ?thesis by (simp add: generate_command_def jsonify_error_def)
next
  case (Inr data)
  assume a: "\<not> has_prompt req \<or> remote_addr req = None"
  show ?thesis
  proof (cases data)
    case (JObj kvs)
    with a Inr show ?thesis
      by (cases "map_of kvs ''prompt''")
         (auto simp: generate_command_def has_prompt_def get_user_id_def jsonify_error_def)
  qed (use Inr in \<open>auto simp: generate_command_def jsonify_error_def split: bool.splits\<close>)
qed

lemma generate_command_under:
  assumes "has_prompt req" "remote_addr req = Some ip"
    and "tracker_get (usage_tracker s) (quota_key (digest ip) (now_check w)) < DAILY_LIMIT"
    and "generate_command digest cfg w req s = (r, s')"
  shows "usage_tracker s' = (usage_tracker s)(quota_key (digest ip) (now_check w) \<mapsto>
             tracker_get (usage_tracker s) (quota_key (digest ip) (now_check w)) + 1)"
    and "\<exists>vs. trace s' = trace s @ Quota_increment (quota_key (digest ip) (now_check w)) # map Net_call vs
              \<and> length vs \<le> 2"
    and "status r = 200 \<or> status r = 500"
    and "status r = 200 \<Longrightarrow> int_field r ''remaining_requests'' =
           Some (DAILY_LIMIT - tracker_get (usage_tracker s') (quota_key (digest ip) (now_remaining w)))"
proof -
  let ?key = "quota_key (digest ip) (now_check w)"
  let ?s1 = "s\<lparr>usage_tracker := (usage_tracker s)(?key \<mapsto> tracker_get (usage_tracker s) ?key + 1),
                trace := trace s @ [Quota_increment ?key]\<rparr>"
  obtain f s2 where g: "generate_with_fallback cfg w ?s1 = (f, s2)"
    by (cases "generate_with_fallback cfg w ?s1")
  from generate_with_fallback_frame[OF g]
  obtain vs where fr: "usage_tracker s2 = usage_tracker ?s1" "trace s2 = trace ?s1 @ map Net_call vs"
      "length vs \<le> 2" by blast
  have eq: "(r, s') = (case f of Return r \<Rightarrow> (r, s2) | Raise e \<Rightarrow> (jsonify_error 500 e, s2)
      | Command command \<Rightarrow>
          (\<lparr>status = 200, body = [(''command'', JStr command),
               (''remaining_requests'', JInt (DAILY_LIMIT - tracker_get (usage_tracker s2)
                   (quota_key (digest ip) (now_remaining w))))]\<rparr>, s2))"
    using assms(4) generate_command_with_prompt[OF assms(1,2), of digest cfg w s]
      check_rate_limit_under[OF assms(3)] g by (cases f) (auto simp: Let_def)
  then have s': "s' = s2" by (cases f) simp_all
  show "usage_tracker s' = (usage_tracker s)(?key \<mapsto> tracker_get (usage_tracker s) ?key + 1)"
    using s' fr by simp
  show "\<exists>vs. trace s' = trace s @ Quota_increment ?key # map Net_call vs \<and> length vs \<le> 2"
    using s' fr by (intro exI[of _ vs]) simp
  have ret: "\<And>r0. f = Return r0 \<Longrightarrow> status r0 = 500"
    using g by (auto simp: generate_with_fallback_def primary_call_def flow_of_def call_anthropic_def
        call_openai_def jsonify_error_def split: if_splits prod.splits flow.splits sum.splits)
  show "status r = 200 \<or> status r = 500"
    using eq ret by (cases f) (auto simp: jsonify_error_def)
  show "int_field r ''remaining_requests'' =
           Some (DAILY_LIMIT - tracker_get (usage_tracker s') (quota_key (digest ip) (now_remaining w)))"
    if "status r = 200"
    using eq ret that s' by (cases f) (auto simp: jsonify_error_def int_field_def)
qed

lemma generate_command_over:
  assumes "has_prompt req" "remote_addr req = Some ip"
    and "tracker_get (usage_tracker s) (quota_key (digest ip) (now_check w)) \<ge> DAILY_LIMIT"
  shows "generate_command digest cfg w req s = (rate_limit_response, s)"
  using generate_command_with_prompt[OF assms(1,2), of digest cfg w s] check_rate_limit_over[OF assms(3)]
  by simp

lemma serve_all_same_day:
  assumes "\<forall>(w, req) \<in> set reqs. has_prompt req \<and> remote_addr req = Some ip \<and>
             now_check w = d \<and> now_remaining w = d"
    and "tracker_get (usage_tracker s) (quota_key (digest ip) d) + int (length reqs) \<le> DAILY_LIMIT"
    and "serve_all digest cfg reqs s = (rs, s')"
  shows "length rs = length reqs \<and>
         tracker_get (usage_tracker s') (quota_key (digest ip) d)
           = tracker_get (usage_tracker s) (quota_key (digest ip) d) + int (length reqs) \<and>
         (\<forall>k < length reqs. (status (rs ! k) = 200 \<or> status (rs ! k) = 500) \<and>
            (status (rs ! k) = 200 \<longrightarrow>
               int_field (rs ! k) ''remaining_requests''
                 = Some (DAILY_LIMIT - tracker_get (usage_tracker s) (quota_key (digest ip) d) - int (k + 1))))"
  using assms
proof (induction reqs arbitrary: s rs s')
  case Nil
  then show ?case by simp
next
  case (Cons a reqs)
  obtain w req where a: "a = (w, req)" by (cases a)
  let ?key = "quota_key (digest ip) d"
  from Cons.prems(1) a have hp: "has_prompt req" and ra: "remote_addr req = Some ip"
    and nc: "now_check w = d" and nr: "now_remaining w = d" by auto
  from Cons.prems(2) have lt: "tracker_get (usage_tracker s) (quota_key (digest ip) (now_check w)) < DAILY_LIMIT"
    unfolding nc by simp
  obtain r s1 where g: "generate_command digest cfg w req s = (r, s1)"
    by (cases "generate_command digest cfg w req s")
  obtain rs1 s2 where sa: "serve_all digest cfg reqs s1 = (rs1, s2)"
    by (cases "serve_all digest cfg reqs s1")
  from Cons.prems(3) a g sa have rs: "rs = r # rs1" and s': "s' = s2" by auto
  from generate_command_under(1)[OF hp ra lt g]
  have c1: "tracker_get (usage_tracker s1) ?key = tracker_get (usage_tracker s) ?key + 1"
    unfolding nc by (simp add: tracker_get_def)
  have st: "status r = 200 \<or> status r = 500" by (rule generate_command_under(3)[OF hp ra lt g])
  have rem: "status r = 200 \<Longrightarrow> int_field r ''remaining_requests''
      = Some (DAILY_LIMIT - tracker_get (usage_tracker s) ?key - 1)"
    using generate_command_under(4)[OF hp ra lt g] c1 unfolding nr by simp
  have p1: "\<forall>(w, req) \<in> set reqs. has_prompt req \<and> remote_addr req = Some ip \<and>
             now_check w = d \<and> now_remaining w = d"
    using Cons.prems(1) by simp
  have p2: "tracker_get (usage_tracker s1) ?key + int (length reqs) \<le> DAILY_LIMIT"
    using Cons.prems(2) c1 by simp
  note ih = Cons.IH[OF p1 p2 sa]
  have len: "length rs = length (a # reqs)" using ih rs by simp
  have cnt: "tracker_get (usage_tracker s') ?key
      = tracker_get (usage_tracker s) ?key + int (length (a # reqs))"
    using ih c1 s' by simp
  have each: "(status (rs ! k) = 200 \<or> status (rs ! k) = 500) \<and>
            (status (rs ! k) = 200 \<longrightarrow>
               int_field (rs ! k) ''remaining_requests''
                 = Some (DAILY_LIMIT - tracker_get (usage_tracker s) ?key - int (k + 1)))"
    if k: "k < length (a # reqs)" for k
  proof (cases k)
    case 0
    then show ?thesis using st rem rs by simp
  next
    case (Suc j)
    with k have "j < length reqs" by simp
    with ih have "(status (rs1 ! j) = 200 \<or> status (rs1 ! j) = 500) \<and>
            (status (rs1 ! j) = 200 \<longrightarrow>
               int_field (rs1 ! j) ''remaining_requests''
                 = Some (DAILY_LIMIT - tracker_get (usage_tracker s1) ?key - int (j + 1)))"
      by blast
    then show ?thesis using Suc rs c1 by simp
  qed
  from len cnt each show ?case by blast
qed

text \<open>A request that the vendors answer is answered 200, with the remaining count.\<close>

lemma generate_with_fallback_answers:
  assumes "vendor_answers cfg w t"
  shows "\<exists>s'. generate_with_fallback cfg w s = (Command (strip t), s') \<and>
              usage_tracker s' = usage_tracker s"
proof (cases "truthy_str (ANTHROPIC_API_KEY cfg)")
  case True
  from assms True consider
      (first) "anthropic_reply w = Ok_text t"
    | (second) e where "truthy_str (OPENAI_API_KEY cfg)" "anthropic_reply w = Api_error e"
        "openai_reply w = Ok_text t"
    by (auto simp: vendor_answers_def split: upstream.splits)
  then show ?thesis
  proof cases
    case first
    with True show ?thesis
      by (simp add: generate_with_fallback_anthropic vendor_result_def)
  next
    case second
    with True show ?thesis
      by (simp add: generate_with_fallback_anthropic vendor_result_def startswith_def)
  qed
next
  case False
  with assms have "truthy_str (OPENAI_API_KEY cfg)" "openai_reply w = Ok_text t"
    by (auto simp: vendor_answers_def)
  with False show ?thesis
    by (simp add: generate_with_fallback_openai vendor_result_def)
qed

lemma generate_command_answered:
  assumes "has_prompt req" and "remote_addr req = Some ip"
    and "tracker_get (usage_tracker s) (quota_key (digest ip) (now_check w)) < DAILY_LIMIT"
    and "now_remaining w = now_check w"
    and "vendor_answers cfg w t"
  shows "fst (generate_command digest cfg w req s) =
           \<lparr>status = 200,
            body = [(''command'', JStr (strip t)),
                    (''remaining_requests'',
                     JInt (DAILY_LIMIT -
                           (tracker_get (usage_tracker s) (quota_key (digest ip) (now_check w)) + 1)))]\<rparr>"
proof -
  let ?key = "quota_key (digest ip) (now_check w)"
  let ?s1 = "s\<lparr>usage_tracker := (usage_tracker s)(?key \<mapsto> tracker_get (usage_tracker s) ?key + 1),
                trace := trace s @ [Quota_increment ?key]\<rparr>"
  from generate_with_fallback_answers[OF assms(5), of ?s1]
  obtain s2 where g: "generate_with_fallback cfg w ?s1 = (Command (strip t), s2)"
    and u: "usage_tracker s2 = usage_tracker ?s1" by blast
  have "tracker_get (usage_tracker s2) ?key = tracker_get (usage_tracker s) ?key + 1"
    unfolding u by (simp add: tracker_get_def)
  then show ?thesis
    using generate_command_with_prompt[OF assms(1,2), of digest cfg w s]
      check_rate_limit_under[OF assms(3)] g assms(4)
    by (simp add: Let_def)
qed

lemma serve_all_same_day_answered:
  assumes "\<forall>(w, req) \<in> set reqs. has_prompt req \<and> remote_addr req = Some ip \<and>
             now_check w = d \<and> now_remaining w = d"
    and "tracker_get (usage_tracker s) (quota_key (digest ip) d) + int (length reqs) \<le> DAILY_LIMIT"
    and "k < length reqs" and "vendor_answers cfg (fst (reqs ! k)) t"
  shows "fst (serve_all digest cfg reqs s) ! k =
           \<lparr>status = 200,
            body = [(''command'', JStr (strip t)),
                    (''remaining_requests'',
                     JInt (DAILY_LIMIT - tracker_get (usage_tracker s) (quota_key (digest ip) d)
                             - int (k + 1)))]\<rparr>"
  using assms
proof (induction reqs arbitrary: s k)
  case Nil
  then show ?case by simp
next
  case (Cons a reqs)
  obtain w req where a: "a = (w, req)" by (cases a)
  let ?key = "quota_key (digest ip) d"
  from Cons.prems(1) a have hp: "has_prompt req" and ra: "remote_addr req = Some ip"
    and nc: "now_check w = d" and nr: "now_remaining w = d" by auto
  from Cons.prems(2) have lt: "tracker_get (usage_tracker s) (quota_key (digest ip) (now_check w)) < DAILY_LIMIT"
    unfolding nc by simp
  obtain r s1 where g: "generate_command digest cfg w req s = (r, s1)"
    by (cases "generate_command digest cfg w req s")
  obtain rs1 s2 where sa: "serve_all digest cfg reqs s1 = (rs1, s2)"
    by (cases "serve_all digest cfg reqs s1")
  have all: "fst (serve_all digest cfg (a # reqs) s) = r # rs1"
    using a g sa by simp
  from generate_command_under(1)[OF hp ra lt g]
  have c1: "tracker_get (usage_tracker s1) ?key = tracker_get (usage_tracker s) ?key + 1"
    unfolding nc by (simp add: tracker_get_def)
  show ?case
  proof (cases k)
    case 0
    with Cons.prems(4) a have va: "vendor_answers cfg w t" by simp
    have same: "now_remaining w = now_check w" using nc nr by simp
    from generate_command_answered[where digest=digest, OF hp ra lt same va] nc g
    have "r = \<lparr>status = 200,
            body = [(''command'', JStr (strip t)),
                    (''remaining_requests'',
                     JInt (DAILY_LIMIT - (tracker_get (usage_tracker s) ?key + 1)))]\<rparr>"
      by simp
    with 0 all show ?thesis by (simp add: algebra_simps)
  next
    case (Suc j)
    have p1: "\<forall>(w, req) \<in> set reqs. has_prompt req \<and> remote_addr req = Some ip \<and>
             now_check w = d \<and> now_remaining w = d"
      using Cons.prems(1) by simp
    have p2: "tracker_get (usage_tracker s1) ?key + int (length reqs) \<le> DAILY_LIMIT"
      using Cons.prems(2) c1 by simp
    have p3: "j < length reqs" using Cons.prems(3) Suc by simp
    have p4: "vendor_answers cfg (fst (reqs ! j)) t" using Cons.prems(4) Suc by simp
    from Cons.IH[OF p1 p2 p3 p4] sa
    have "rs1 ! j = \<lparr>status = 200,
            body = [(''command'', JStr (strip t)),
                    (''remaining_requests'',
                     JInt (DAILY_LIMIT - tracker_get (usage_tracker s1) ?key - int (j + 1)))]\<rparr>"
      by simp
    with Suc all c1 show ?thesis by (simp add: algebra_simps)
  qed
qed

lemma quota_key_inj_day: "quota_key u d = quota_key u d' \<Longrightarrow> d = d'"
  by (simp add: quota_key_def)

text \<open>The definitions that evaluate the handler on a concrete request.\<close>

lemmas server_eval =
  generate_command_def get_user_id_def check_rate_limit_def generate_with_fallback_def
  primary_call_def flow_of_def call_anthropic_def call_openai_def vendor_result_def
  jsonify_error_def rate_limit_response_def quota_key_def tracker_get_def DAILY_LIMIT_def
  truthy_str_def startswith_def Let_def

lemma generate_command_no_keys_trace:
  assumes "\<not> truthy_str (ANTHROPIC_API_KEY cfg)" and "\<not> truthy_str (OPENAI_API_KEY cfg)"
  shows "net_calls (trace (snd (generate_command digest cfg w req s))) = net_calls (trace s)"
  using assms
  by (auto simp: generate_command_def generate_with_fallback_no_keys check_rate_limit_def
      net_calls_def Let_def split: sum.splits bool.splits if_splits)

subsection \<open>Traces of the command-line tools\<close>

lemma net_calls_append: "net_calls (xs @ ys) = net_calls xs @ net_calls ys"
  by (simp add: net_calls_def)

lemma shell_execs_append: "shell_execs (xs @ ys) = shell_execs xs @ shell_execs ys"
  by (simp add: shell_execs_def)

lemma net_calls_simps:
  "net_calls [] = []"
  "net_calls (e # es) = (case e of Net_call v \<Rightarrow> v # net_calls es | _ \<Rightarrow> net_calls es)"
  by (simp_all add: net_calls_def split: event.splits)

lemma shell_execs_simps:
  "shell_execs [] = []"
  "shell_execs (e # es) = (case e of Shell_exec c \<Rightarrow> c # shell_execs es | _ \<Rightarrow> shell_execs es)"
  by (simp_all add: shell_execs_def split: event.splits)

lemma net_calls_lal_except: "net_calls (lal_except env e) = []"
  by (simp add: lal_except_def net_calls_simps split: option.splits)

lemma shell_execs_lal_except: "shell_execs (lal_except env e) = []"
  by (simp add: lal_except_def shell_execs_simps split: option.splits)

lemma provider_generate_calls:
  "net_calls (snd (provider_generate ai env))
     = (if request_sent (sdk_of (provider_vendor ai) env) then [provider_vendor ai] else [])"
  "shell_execs (snd (provider_generate ai env)) = []"
  by (cases ai; cases "sdk_openai env"; cases "sdk_anthropic env";
      simp add: sdk_generate_def net_calls_simps shell_execs_simps)+

lemma lal_main_selected_calls:
  assumes "select_provider a env = Selected ai" and "truthy_str (prompt a)" and "\<not> config a"
  shows "net_calls (lal_main a env)
           = (if request_sent (sdk_of (provider_vendor ai) env) then [provider_vendor ai] else [])"
proof -
  obtain res tr where pg: "provider_generate ai env = (res, tr)"
    by (cases "provider_generate ai env")
  have tr: "net_calls tr = (if request_sent (sdk_of (provider_vendor ai) env) then [provider_vendor ai] else [])"
    using provider_generate_calls(1)[of ai env] pg by simp
  have "net_calls (lal_main a env) = net_calls tr"
    using assms pg
    by (cases res; cases "confirm_answer env")
       (auto simp: lal_main_def net_calls_append net_calls_lal_except net_calls_simps
          split: bool.splits option.splits)
  with tr show ?thesis by simp
qed

lemma lal_main_no_selection_calls:
  assumes "\<forall>ai. select_provider a env \<noteq> Selected ai"
  shows "net_calls (lal_main a env) = []"
  using assms
  by (cases "select_provider a env")
     (auto simp: lal_main_def net_calls_lal_except net_calls_simps)

lemma lal_main_idle_calls:
  assumes "\<not> truthy_str (prompt a) \<or> config a"
  shows "net_calls (lal_main a env) = []"
  using assms by (auto simp: lal_main_def net_calls_simps)

text \<open>What reaches \<^verbatim>\<open>os.system\<close> in a run of either tool.\<close>

lemma lal_main_shell:
  "shell_execs (lal_main a env) =
     (if \<not> config a \<and> truthy_str (prompt a) \<and> execute a \<and> confirm_answer env = Inr True
      then (case select_provider a env of
              Selected ai \<Rightarrow>
                (case fst (provider_generate ai env) of
                   Inr command \<Rightarrow>
                     if markup_error env ''[bold green]'' command ''[/]'' = None \<and>
                        markup_error env (CHR 0x0A # ''[dim]Executing:[/] '') command [] = None
                     then [command] else []
                 | Inl e \<Rightarrow> [])
            | _ \<Rightarrow> [])
      else [])"
proof (cases "select_provider a env")
  case (Selected ai)
  obtain res tr where pg: "provider_generate ai env = (res, tr)"
    by (cases "provider_generate ai env")
  have tr: "shell_execs tr = []" using provider_generate_calls(2)[of ai env] pg by simp
  show ?thesis
  proof (cases res)
    case (Inl e)
    with Selected pg tr show ?thesis
      by (simp add: lal_main_def shell_execs_append shell_execs_lal_except shell_execs_simps)
  next
    case (Inr command)
    show ?thesis
    proof (cases "markup_error env ''[bold green]'' command ''[/]''")
      case (Some m)
      with Inr Selected pg tr show ?thesis
        by (simp add: lal_main_def shell_execs_append shell_execs_lal_except shell_execs_simps)
    next
      case None
      show ?thesis
      proof (cases "confirm_answer env")
        case (Inl e)
        with None Inr Selected pg tr show ?thesis
          by (simp add: lal_main_def shell_execs_append shell_execs_lal_except shell_execs_simps)
      next
        case answer: (Inr b)
        show ?thesis
        proof (cases "markup_error env (CHR 0x0A # ''[dim]Executing:[/] '') command []")
          case run: None
          with answer None Inr Selected pg tr show ?thesis
            by (cases b)
               (simp_all add: lal_main_def shell_execs_append shell_execs_simps)
        next
          case (Some m)
          with answer None Inr Selected pg tr show ?thesis
            by (cases b)
               (simp_all add: lal_main_def shell_execs_append shell_execs_lal_except
                  shell_execs_simps)
        qed
      qed
    qed
  qed
next
  case (Print_and_return m)
  then show ?thesis by (simp add: lal_main_def shell_execs_simps)
next
  case (Selection_raises e)
  then show ?thesis by (simp add: lal_main_def shell_execs_lal_except shell_execs_simps)
qed

lemma make_request_shell: "shell_execs (snd (make_request v r)) = []"
  by (cases r) (simp_all add: make_request_def shell_execs_simps)

lemma simple_choose_shell:
  "simple_choose p env = Inr (res, tr) \<Longrightarrow> shell_execs tr = []"
  using make_request_shell[of Openai "http_openai env"] make_request_shell[of Anthropic "http_anthropic env"]
  by (auto simp: simple_choose_def make_openai_request_def make_anthropic_request_def
      split: if_splits)

lemma lal_simple_main_shell:
  "shell_execs (lal_simple_main argv env) =
     (if 2 \<le> length argv \<and> argv ! 1 \<noteq> ''--config'' \<and>
         (truthy_str (simple_anthropic_key env) \<or> truthy_str (simple_openai_key env)) \<and>
         simple_execute_flag argv \<and>
         (case input_line env of Inr response \<Rightarrow> lower response = ''y'' | Inl e \<Rightarrow> False)
      then (case simple_choose (simple_provider argv) env of
              Inr (Inr command, tr) \<Rightarrow> [command]
            | _ \<Rightarrow> [])
      else [])"
proof (cases "simple_choose (simple_provider argv) env")
  case (Inl m)
  then show ?thesis by (simp add: lal_simple_main_def shell_execs_simps)
next
  case (Inr p)
  obtain res tr where p: "p = (res, tr)" by (cases p)
  have tr: "shell_execs tr = []" using simple_choose_shell Inr p by blast
  show ?thesis using Inr p tr
    by (cases res; cases "input_line env")
       (auto simp: lal_simple_main_def shell_execs_append shell_execs_simps)
qed

text \<open>Two runs in which the user confirms.\<close>

lemmas cli_eval =
  lal_main_def select_provider_def get_ai_provider_def sdk_generate_def lal_except_def
  markup_error_def
  model_or_def truthy_str_def strip_def isspace_def startswith_def
  lal_simple_main_def simple_choose_def simple_provider_def simple_execute_flag_def
  index_of_def make_request_def make_openai_request_def make_anthropic_request_def
  lower_def lower_char_def

lemma lal_run_accepted:
  "lal_main \<lparr>prompt = Some ''list files'', execute = True, provider = None,
             model = None, config = False\<rparr>
      \<lparr>env_anthropic_key = Some ''sk-ant'', env_openai_key = None,
        sdk_anthropic = Sdk_text '' ls -la '', sdk_openai = Sdk_text ''ls'', confirm_answer = Inr True,
        rich_error = Map.empty\<rparr>
    = [Net_call Anthropic, Print (Generated_command ''ls -la''), Confirm_ask,
       Print (Executing ''ls -la''), Shell_exec ''ls -la'']"
  by (simp add: cli_eval)

lemma lal_simple_run_accepted:
  "lal_simple_main [''lal_simple.py'', ''list files'', ''-e'']
      \<lparr>simple_anthropic_key = Some ''sk-ant'', simple_openai_key = None,
        http_anthropic = Http_text ''ls -la'', http_openai = Http_text ''ls'', input_line = Inr ''Y''\<rparr>
    = [Net_call Anthropic, Print (Generated_command ''ls -la''), Confirm_ask,
       Print (Executing ''ls -la''), Shell_exec ''ls -la'']"
proof -
  have y: "lower ''Y'' = ''y''" by code_simp
  show ?thesis
    by (simp add: lal_simple_main_def simple_choose_def simple_provider_def simple_execute_flag_def
        make_request_def make_anthropic_request_def truthy_str_def strip_def isspace_def y)
qed

text \<open>
  A run in which the command holds a closing tag: \<^verbatim>\<open>rich\<close> raises on the panel, then on the
  error line that quotes its own message, and nothing is executed although the user
  would confirm.
\<close>

lemma lal_run_markup_error:
  "lal_main \<lparr>prompt = Some ''find the tag'', execute = True, provider = None,
             model = None, config = False\<rparr>
      \<lparr>env_anthropic_key = Some ''sk-ant'', env_openai_key = None,
        sdk_anthropic = Sdk_text ''grep [/] f'', sdk_openai = Sdk_text ''ls'',
        confirm_answer = Inr True,
        rich_error =
          [''[bold green]grep [/] f[/]'' \<mapsto> ''closing tag '[/]' at position 22 has nothing to close'',
           ''[red]Error:[/] closing tag '[/]' at position 22 has nothing to close'' \<mapsto>
             ''closing tag '[/]' at position 28 has nothing to close'']\<rparr>
    = [Net_call Anthropic, Uncaught ''closing tag '[/]' at position 28 has nothing to close'']"
  by (simp add: cli_eval)

section \<open>Properties\<close>

subsection \<open>Quota tracker\<close>

text \<open>
  Claim C2. For every caller identifier and day, \<^verbatim>\<open>check_rate_limit\<close> returns false and
  leaves the tracker as it is when the count of the key (0 when the key is absent) is
  at least \<open>DAILY_LIMIT\<close>, which is 50; otherwise it returns true and the count of the key
  is greater by exactly one, while the count of every other key is as before.
\<close>

theorem check_rate_limit_at_limit_or_increment:
  "DAILY_LIMIT = 50 \<and>
   (DAILY_LIMIT \<le> tracker_get (usage_tracker s) (quota_key user_id today) \<longrightarrow>
      check_rate_limit user_id today s = (False, s)) \<and>
   (tracker_get (usage_tracker s) (quota_key user_id today) < DAILY_LIMIT \<longrightarrow>
      fst (check_rate_limit user_id today s) = True \<and>
      tracker_get (usage_tracker (snd (check_rate_limit user_id today s))) (quota_key user_id today)
        = tracker_get (usage_tracker s) (quota_key user_id today) + 1 \<and>
      (\<forall>k. k \<noteq> quota_key user_id today \<longrightarrow>
         tracker_get (usage_tracker (snd (check_rate_limit user_id today s))) k
           = tracker_get (usage_tracker s) k))"
  by (simp add: check_rate_limit_over check_rate_limit_under tracker_get_def DAILY_LIMIT_def)

theorem check_rate_limit_at_limit_or_increment_witness:
  "check_rate_limit ''ab12'' ''2024-05-01''
      \<lparr>usage_tracker = [''ab12:2024-05-01'' \<mapsto> 50], trace = []\<rparr>
     = (False, \<lparr>usage_tracker = [''ab12:2024-05-01'' \<mapsto> 50], trace = []\<rparr>) \<and>
   fst (check_rate_limit ''ab12'' ''2024-05-01''
      \<lparr>usage_tracker = [''ab12:2024-05-01'' \<mapsto> 49], trace = []\<rparr>) = True \<and>
   tracker_get (usage_tracker (snd (check_rate_limit ''ab12'' ''2024-05-01''
      \<lparr>usage_tracker = [''ab12:2024-05-01'' \<mapsto> 49], trace = []\<rparr>))) ''ab12:2024-05-01'' = 50"
proof -
  let ?full = "\<lparr>usage_tracker = [''ab12:2024-05-01'' \<mapsto> 50::int], trace = []\<rparr>"
  let ?last = "\<lparr>usage_tracker = [''ab12:2024-05-01'' \<mapsto> 49::int], trace = []\<rparr>"
  have k: "quota_key ''ab12'' ''2024-05-01'' = ''ab12:2024-05-01''"
    by (simp add: quota_key_def)
  have full: "DAILY_LIMIT \<le> tracker_get (usage_tracker ?full) (quota_key ''ab12'' ''2024-05-01'')"
    unfolding k by (simp add: tracker_get_def DAILY_LIMIT_def)
  have last: "tracker_get (usage_tracker ?last) (quota_key ''ab12'' ''2024-05-01'') < DAILY_LIMIT"
    unfolding k by (simp add: tracker_get_def DAILY_LIMIT_def)
  have v: "tracker_get (usage_tracker ?last) ''ab12:2024-05-01'' = 49"
    by (simp add: tracker_get_def)
  from check_rate_limit_at_limit_or_increment[of ?full "''ab12''" "''2024-05-01''"] full
  have a: "check_rate_limit ''ab12'' ''2024-05-01'' ?full = (False, ?full)" by blast
  from check_rate_limit_at_limit_or_increment[of ?last "''ab12''" "''2024-05-01''"] last
  have b: "fst (check_rate_limit ''ab12'' ''2024-05-01'' ?last) = True"
    and c: "tracker_get (usage_tracker (snd (check_rate_limit ''ab12'' ''2024-05-01'' ?last)))
              (quota_key ''ab12'' ''2024-05-01'')
            = tracker_get (usage_tracker ?last) (quota_key ''ab12'' ''2024-05-01'') + 1"
    by blast+
  from c have c': "tracker_get (usage_tracker (snd (check_rate_limit ''ab12'' ''2024-05-01'' ?last)))
              ''ab12:2024-05-01'' = 50"
    unfolding k v by simp
  from a b c' show ?thesis by blast
qed

text \<open>
  Claim C10. For every token and every state, the handler of \<^verbatim>\<open>GET /usage/<user_token>\<close>
  leaves the state, and so the tracker, as it is, and the fields of its answer satisfy
  \<^verbatim>\<open>used_today + remaining_today = daily_limit\<close>.
\<close>

theorem get_usage_reads_only:
  "snd (get_usage user_token today s) = s \<and>
   (\<exists>used remaining limit.
      int_field (fst (get_usage user_token today s)) ''used_today'' = Some used \<and>
      int_field (fst (get_usage user_token today s)) ''remaining_today'' = Some remaining \<and>
      int_field (fst (get_usage user_token today s)) ''daily_limit'' = Some limit \<and>
      used = tracker_get (usage_tracker s) (quota_key user_token today) \<and>
      limit = DAILY_LIMIT \<and>
      used + remaining = limit)"
  by (simp add: get_usage_def Let_def int_field_def)

subsection \<open>The handler of \<^verbatim>\<open>/generate\<close>\<close>

text \<open>
  Claim C9. A request that passes the rate-limit check (its body has a prompt, its address
  is known, and the caller's count for the day is under the limit) leaves the caller's
  count for that day greater by exactly one, whatever the response is: 200, or 500 for a
  configuration or vendor failure. In the trace the increment comes first and only
  requests to vendors follow, so the count is raised before any provider is chosen or
  called and is not lowered afterwards.
\<close>

theorem quota_consumed_before_provider:
  assumes "has_prompt req" and "remote_addr req = Some ip"
    and "tracker_get (usage_tracker s) (quota_key (digest ip) (now_check w)) < DAILY_LIMIT"
  shows "tracker_get (usage_tracker (snd (generate_command digest cfg w req s)))
             (quota_key (digest ip) (now_check w))
           = tracker_get (usage_tracker s) (quota_key (digest ip) (now_check w)) + 1 \<and>
         (\<exists>vs. trace (snd (generate_command digest cfg w req s))
                 = trace s @ Quota_increment (quota_key (digest ip) (now_check w)) # map Net_call vs) \<and>
         (status (fst (generate_command digest cfg w req s)) = 200 \<or>
          status (fst (generate_command digest cfg w req s)) = 500)"
proof -
  obtain r s' where g: "generate_command digest cfg w req s = (r, s')"
    by (cases "generate_command digest cfg w req s")
  from generate_command_under(1)[OF assms g]
  have "tracker_get (usage_tracker s') (quota_key (digest ip) (now_check w))
           = tracker_get (usage_tracker s) (quota_key (digest ip) (now_check w)) + 1"
    by (simp add: tracker_get_def)
  moreover from generate_command_under(2)[OF assms g]
  have "\<exists>vs. trace s' = trace s @ Quota_increment (quota_key (digest ip) (now_check w)) # map Net_call vs"
    by blast
  moreover have "status r = 200 \<or> status r = 500"
    by (rule generate_command_under(3)[OF assms g])
  ultimately show ?thesis using g by simp
qed

theorem quota_consumed_before_provider_witness:
  "fst (generate_command id \<lparr>ANTHROPIC_API_KEY = Some ''sk-ant'', OPENAI_API_KEY = None\<rparr>
          \<lparr>now_check = ''2024-05-01'', now_remaining = ''2024-05-01'',
           anthropic_reply = Raises ''Connection refused'', openai_reply = Ok_text ''ls''\<rparr>
          \<lparr>get_json = Inr (JObj [(''prompt'', JStr ''list files'')]), remote_addr = Some ''10.0.0.7''\<rparr>
          \<lparr>usage_tracker = Map.empty, trace = []\<rparr>)
     = jsonify_error 500 ''Connection refused'' \<and>
   tracker_get (usage_tracker (snd (generate_command id
          \<lparr>ANTHROPIC_API_KEY = Some ''sk-ant'', OPENAI_API_KEY = None\<rparr>
          \<lparr>now_check = ''2024-05-01'', now_remaining = ''2024-05-01'',
           anthropic_reply = Raises ''Connection refused'', openai_reply = Ok_text ''ls''\<rparr>
          \<lparr>get_json = Inr (JObj [(''prompt'', JStr ''list files'')]), remote_addr = Some ''10.0.0.7''\<rparr>
          \<lparr>usage_tracker = Map.empty, trace = []\<rparr>))) ''10.0.0.7:2024-05-01'' = 1"
proof -
  let ?cfg = "\<lparr>ANTHROPIC_API_KEY = Some ''sk-ant'', OPENAI_API_KEY = None\<rparr>"
  let ?w = "\<lparr>now_check = ''2024-05-01'', now_remaining = ''2024-05-01'',
           anthropic_reply = Raises ''Connection refused'', openai_reply = Ok_text ''ls''\<rparr>"
  let ?req = "\<lparr>get_json = Inr (JObj [(''prompt'', JStr ''list files'')]), remote_addr = Some ''10.0.0.7''\<rparr>"
  let ?s = "\<lparr>usage_tracker = Map.empty, trace = []\<rparr> :: server_state"
  have hp: "has_prompt ?req" by (simp add: has_prompt_def)
  have ra: "remote_addr ?req = Some ''10.0.0.7''" by simp
  have k: "quota_key (id ''10.0.0.7'') (now_check ?w) = ''10.0.0.7:2024-05-01''"
    by (simp add: quota_key_def)
  have lt: "tracker_get (usage_tracker ?s) (quota_key (id ''10.0.0.7'') (now_check ?w)) < DAILY_LIMIT"
    by (simp add: tracker_get_def DAILY_LIMIT_def)
  have z: "tracker_get (usage_tracker ?s) ''10.0.0.7:2024-05-01'' = 0"
    by (simp add: tracker_get_def)
  from quota_consumed_before_provider[where digest=id and cfg="?cfg", OF hp ra lt]
  have "tracker_get (usage_tracker (snd (generate_command id ?cfg ?w ?req ?s)))
          (quota_key (id ''10.0.0.7'') (now_check ?w))
        = tracker_get (usage_tracker ?s) (quota_key (id ''10.0.0.7'') (now_check ?w)) + 1"
    by blast
  then have c: "tracker_get (usage_tracker (snd (generate_command id ?cfg ?w ?req ?s)))
          ''10.0.0.7:2024-05-01'' = 1"
    unfolding k z by simp
  have r: "fst (generate_command id ?cfg ?w ?req ?s) = jsonify_error 500 ''Connection refused''"
    by (simp add: server_eval)
  from r c show ?thesis by blast
qed

text \<open>
  Claim C3. Take a caller whose count for day \<open>d\<close> is \<open>c\<close>, and \<open>N\<close> requests of that caller
  served one after the other within day \<open>d\<close> (both clock readings of each request give
  \<open>d\<close>), with \<open>c + N\<close> at most the limit. None of them is answered 429. The \<open>k\<close>-th one, when
  the vendors answer it, is answered 200 with the vendor's command and
  \<^verbatim>\<open>remaining_requests\<close> \<open>= LIMIT - c - k\<close>, and no 200 answer carries another value: each
  accepted request lowers the remaining count by exactly one, and \<open>N\<close> of them by \<open>N\<close>. Once
  the count has reached the limit, the next request of the caller on that day is
  answered 429 and the state, whose trace holds every request sent to a vendor, stays as
  it is.
\<close>

theorem remaining_decreases_then_rate_limited:
  assumes "\<forall>(w, req) \<in> set reqs. has_prompt req \<and> remote_addr req = Some ip \<and>
             now_check w = d \<and> now_remaining w = d"
    and "tracker_get (usage_tracker s) (quota_key (digest ip) d) + int (length reqs) \<le> DAILY_LIMIT"
  shows "length (fst (serve_all digest cfg reqs s)) = length reqs \<and>
         (\<forall>k < length reqs.
            status (fst (serve_all digest cfg reqs s) ! k) \<noteq> 429 \<and>
            (status (fst (serve_all digest cfg reqs s) ! k) = 200 \<longrightarrow>
               int_field (fst (serve_all digest cfg reqs s) ! k) ''remaining_requests''
                 = Some (DAILY_LIMIT - tracker_get (usage_tracker s) (quota_key (digest ip) d)
                           - int (k + 1)))) \<and>
         (\<forall>k < length reqs. \<forall>t. vendor_answers cfg (fst (reqs ! k)) t \<longrightarrow>
            fst (serve_all digest cfg reqs s) ! k =
              \<lparr>status = 200,
               body = [(''command'', JStr (strip t)),
                       (''remaining_requests'',
                        JInt (DAILY_LIMIT - tracker_get (usage_tracker s) (quota_key (digest ip) d)
                                - int (k + 1)))]\<rparr>) \<and>
         (tracker_get (usage_tracker s) (quota_key (digest ip) d) + int (length reqs) = DAILY_LIMIT \<longrightarrow>
            (\<forall>w req. has_prompt req \<and> remote_addr req = Some ip \<and> now_check w = d \<longrightarrow>
               generate_command digest cfg w req (snd (serve_all digest cfg reqs s))
                 = (rate_limit_response, snd (serve_all digest cfg reqs s)) \<and>
               status rate_limit_response = 429))"
proof -
  obtain rs s' where sa: "serve_all digest cfg reqs s = (rs, s')"
    by (cases "serve_all digest cfg reqs s")
  note main = serve_all_same_day[OF assms sa]
  have a: "length rs = length reqs" using main by blast
  have b: "status (rs ! k) \<noteq> 429 \<and>
            (status (rs ! k) = 200 \<longrightarrow>
               int_field (rs ! k) ''remaining_requests''
                 = Some (DAILY_LIMIT - tracker_get (usage_tracker s) (quota_key (digest ip) d)
                           - int (k + 1)))" if "k < length reqs" for k
  proof -
    from main that have "(status (rs ! k) = 200 \<or> status (rs ! k) = 500) \<and>
            (status (rs ! k) = 200 \<longrightarrow>
               int_field (rs ! k) ''remaining_requests''
                 = Some (DAILY_LIMIT - tracker_get (usage_tracker s) (quota_key (digest ip) d)
                           - int (k + 1)))" by blast
    then show ?thesis by auto
  qed
  have ok: "rs ! k =
              \<lparr>status = 200,
               body = [(''command'', JStr (strip t)),
                       (''remaining_requests'',
                        JInt (DAILY_LIMIT - tracker_get (usage_tracker s) (quota_key (digest ip) d)
                                - int (k + 1)))]\<rparr>"
    if "k < length reqs" "vendor_answers cfg (fst (reqs ! k)) t" for k t
    using serve_all_same_day_answered[where digest=digest, OF assms that] sa by simp
  have c: "generate_command digest cfg w req s' = (rate_limit_response, s') \<and>
           status rate_limit_response = 429"
    if full: "tracker_get (usage_tracker s) (quota_key (digest ip) d) + int (length reqs) = DAILY_LIMIT"
      and r: "has_prompt req \<and> remote_addr req = Some ip \<and> now_check w = d" for w req
  proof -
    from main full have "DAILY_LIMIT \<le> tracker_get (usage_tracker s') (quota_key (digest ip) (now_check w))"
      using r by simp
    moreover from r have "has_prompt req" "remote_addr req = Some ip" by simp_all
    ultimately have "generate_command digest cfg w req s' = (rate_limit_response, s')"
      by (intro generate_command_over)
    then show ?thesis by (simp add: rate_limit_response_def)
  qed
  from a b ok c show ?thesis unfolding sa by simp
qed

theorem remaining_decreases_then_rate_limited_witness:
  "fst (serve_all id \<lparr>ANTHROPIC_API_KEY = Some ''sk-ant'', OPENAI_API_KEY = None\<rparr>
      (replicate 50
         (\<lparr>now_check = ''2024-05-01'', now_remaining = ''2024-05-01'',
            anthropic_reply = Ok_text '' ls -la '', openai_reply = Ok_text ''ls''\<rparr>,
          \<lparr>get_json = Inr (JObj [(''prompt'', JStr ''list files'')]),
            remote_addr = Some ''10.0.0.7''\<rparr>))
      \<lparr>usage_tracker = Map.empty, trace = []\<rparr>) ! 0
     = \<lparr>status = 200, body = [(''command'', JStr ''ls -la''), (''remaining_requests'', JInt 49)]\<rparr> \<and>
   fst (serve_all id \<lparr>ANTHROPIC_API_KEY = Some ''sk-ant'', OPENAI_API_KEY = None\<rparr>
      (replicate 50
         (\<lparr>now_check = ''2024-05-01'', now_remaining = ''2024-05-01'',
            anthropic_reply = Ok_text '' ls -la '', openai_reply = Ok_text ''ls''\<rparr>,
          \<lparr>get_json = Inr (JObj [(''prompt'', JStr ''list files'')]),
            remote_addr = Some ''10.0.0.7''\<rparr>))
      \<lparr>usage_tracker = Map.empty, trace = []\<rparr>) ! 1
     = \<lparr>status = 200, body = [(''command'', JStr ''ls -la''), (''remaining_requests'', JInt 48)]\<rparr> \<and>
   fst (serve_all id \<lparr>ANTHROPIC_API_KEY = Some ''sk-ant'', OPENAI_API_KEY = None\<rparr>
      (replicate 50
         (\<lparr>now_check = ''2024-05-01'', now_remaining = ''2024-05-01'',
            anthropic_reply = Ok_text '' ls -la '', openai_reply = Ok_text ''ls''\<rparr>,
          \<lparr>get_json = Inr (JObj [(''prompt'', JStr ''list files'')]),
            remote_addr = Some ''10.0.0.7''\<rparr>))
      \<lparr>usage_tracker = Map.empty, trace = []\<rparr>) ! 49
     = \<lparr>status = 200, body = [(''command'', JStr ''ls -la''), (''remaining_requests'', JInt 0)]\<rparr> \<and>
   length (fst (serve_all id \<lparr>ANTHROPIC_API_KEY = Some ''sk-ant'', OPENAI_API_KEY = None\<rparr>
      (replicate 50
         (\<lparr>now_check = ''2024-05-01'', now_remaining = ''2024-05-01'',
            anthropic_reply = Ok_text '' ls -la '', openai_reply = Ok_text ''ls''\<rparr>,
          \<lparr>get_json = Inr (JObj [(''prompt'', JStr ''list files'')]),
            remote_addr = Some ''10.0.0.7''\<rparr>))
      \<lparr>usage_tracker = Map.empty, trace = []\<rparr>)) = 50 \<and>
   generate_command id \<lparr>ANTHROPIC_API_KEY = Some ''sk-ant'', OPENAI_API_KEY = None\<rparr>
      \<lparr>now_check = ''2024-05-01'', now_remaining = ''2024-05-01'',
        anthropic_reply = Ok_text '' ls -la '', openai_reply = Ok_text ''ls''\<rparr>
      \<lparr>get_json = Inr (JObj [(''prompt'', JStr ''list files'')]), remote_addr = Some ''10.0.0.7''\<rparr>
      (snd (serve_all id \<lparr>ANTHROPIC_API_KEY = Some ''sk-ant'', OPENAI_API_KEY = None\<rparr>
        (replicate 50
           (\<lparr>now_check = ''2024-05-01'', now_remaining = ''2024-05-01'',
              anthropic_reply = Ok_text '' ls -la '', openai_reply = Ok_text ''ls''\<rparr>,
            \<lparr>get_json = Inr (JObj [(''prompt'', JStr ''list files'')]),
              remote_addr = Some ''10.0.0.7''\<rparr>))
        \<lparr>usage_tracker = Map.empty, trace = []\<rparr>))
    = (\<lparr>status = 429,
        body = [(''error'', JStr ''Rate limit exceeded''),
                (''message'', JStr ''Daily limit of 50 requests reached. Try again tomorrow.'')]\<rparr>,
       snd (serve_all id \<lparr>ANTHROPIC_API_KEY = Some ''sk-ant'', OPENAI_API_KEY = None\<rparr>
        (replicate 50
           (\<lparr>now_check = ''2024-05-01'', now_remaining = ''2024-05-01'',
              anthropic_reply = Ok_text '' ls -la '', openai_reply = Ok_text ''ls''\<rparr>,
            \<lparr>get_json = Inr (JObj [(''prompt'', JStr ''list files'')]),
              remote_addr = Some ''10.0.0.7''\<rparr>))
        \<lparr>usage_tracker = Map.empty, trace = []\<rparr>))"
proof -
  let ?cfg = "\<lparr>ANTHROPIC_API_KEY = Some ''sk-ant'', OPENAI_API_KEY = None\<rparr>"
  let ?w = "\<lparr>now_check = ''2024-05-01'', now_remaining = ''2024-05-01'',
        anthropic_reply = Ok_text '' ls -la '', openai_reply = Ok_text ''ls''\<rparr>"
  let ?req = "\<lparr>get_json = Inr (JObj [(''prompt'', JStr ''list files'')]), remote_addr = Some ''10.0.0.7''\<rparr>"
  let ?s = "\<lparr>usage_tracker = Map.empty, trace = []\<rparr> :: server_state"
  let ?reqs = "replicate 50 (?w, ?req)"
  let ?rs = "fst (serve_all id ?cfg ?reqs ?s)"
  have hp: "has_prompt ?req" by (simp add: has_prompt_def)
  have same: "\<forall>(w, req) \<in> set ?reqs. has_prompt req \<and> remote_addr req = Some ''10.0.0.7'' \<and>
             now_check w = ''2024-05-01'' \<and> now_remaining w = ''2024-05-01''"
    using hp by simp
  have z: "tracker_get (usage_tracker ?s) (quota_key (id ''10.0.0.7'') ''2024-05-01'') = 0"
    by (simp add: tracker_get_def)
  have under: "tracker_get (usage_tracker ?s) (quota_key (id ''10.0.0.7'') ''2024-05-01'')
                 + int (length ?reqs) \<le> DAILY_LIMIT"
    unfolding z by (simp add: DAILY_LIMIT_def)
  have full: "tracker_get (usage_tracker ?s) (quota_key (id ''10.0.0.7'') ''2024-05-01'')
                 + int (length ?reqs) = DAILY_LIMIT"
    unfolding z by (simp add: DAILY_LIMIT_def)
  have st: "strip '' ls -la '' = ''ls -la''" by (simp add: strip_def isspace_def)
  have va: "vendor_answers ?cfg (fst (?reqs ! k)) '' ls -la ''" if "k < 50" for k
    using that by (simp add: vendor_answers_def truthy_str_def)
  have rl: "rate_limit_response = \<lparr>status = 429,
        body = [(''error'', JStr ''Rate limit exceeded''),
                (''message'', JStr ''Daily limit of 50 requests reached. Try again tomorrow.'')]\<rparr>"
    by code_simp
  note t = remaining_decreases_then_rate_limited[where digest=id and cfg="?cfg", OF same under]
  from t have len: "length ?rs = length ?reqs" by blast
  from t have ans: "\<forall>k < length ?reqs. \<forall>t. vendor_answers ?cfg (fst (?reqs ! k)) t \<longrightarrow>
            ?rs ! k =
              \<lparr>status = 200,
               body = [(''command'', JStr (strip t)),
                       (''remaining_requests'',
                        JInt (DAILY_LIMIT - tracker_get (usage_tracker ?s)
                                (quota_key (id ''10.0.0.7'') ''2024-05-01'') - int (k + 1)))]\<rparr>"
    by blast
  have nth: "?rs ! k = \<lparr>status = 200,
               body = [(''command'', JStr ''ls -la''),
                       (''remaining_requests'', JInt (49 - int k))]\<rparr>" if "k < 50" for k
  proof -
    from that have "k < length ?reqs" by simp
    with ans va[OF that] have "?rs ! k =
              \<lparr>status = 200,
               body = [(''command'', JStr (strip '' ls -la '')),
                       (''remaining_requests'',
                        JInt (DAILY_LIMIT - tracker_get (usage_tracker ?s)
                                (quota_key (id ''10.0.0.7'') ''2024-05-01'') - int (k + 1)))]\<rparr>"
      by blast
    then show ?thesis unfolding z st by (simp add: DAILY_LIMIT_def)
  qed
  from t full have "\<forall>w req. has_prompt req \<and> remote_addr req = Some ''10.0.0.7'' \<and>
               now_check w = ''2024-05-01'' \<longrightarrow>
               generate_command id ?cfg w req (snd (serve_all id ?cfg ?reqs ?s))
                 = (rate_limit_response, snd (serve_all id ?cfg ?reqs ?s)) \<and>
               status rate_limit_response = 429" by blast
  then have b: "generate_command id ?cfg ?w ?req (snd (serve_all id ?cfg ?reqs ?s))
                 = (rate_limit_response, snd (serve_all id ?cfg ?reqs ?s))"
    using hp by simp
  have n0: "?rs ! 0 = \<lparr>status = 200,
      body = [(''command'', JStr ''ls -la''), (''remaining_requests'', JInt 49)]\<rparr>"
    using nth[of 0] by simp
  have n1: "?rs ! 1 = \<lparr>status = 200,
      body = [(''command'', JStr ''ls -la''), (''remaining_requests'', JInt 48)]\<rparr>"
    using nth[of 1] by simp
  have n49: "?rs ! 49 = \<lparr>status = 200,
      body = [(''command'', JStr ''ls -la''), (''remaining_requests'', JInt 0)]\<rparr>"
    using nth[of 49] by simp
  have l: "length ?rs = 50" using len by simp
  from n0 n1 n49 l b show ?thesis unfolding rl by (intro conjI)
qed

text \<open>
  Claim C7. A caller has reached the limit on day \<open>d\<close>, so a request on day \<open>d\<close> is refused.
  On another day \<open>d'\<close> the key of the quota is another key; with no request of the caller
  counted on \<open>d'\<close> yet, the caller's request on \<open>d'\<close> passes the rate-limit check, counts as
  the first of that day, and a 200 answer returns \<^verbatim>\<open>remaining_requests\<close> \<open>= LIMIT - 1\<close>.
\<close>

theorem day_rollover_allows_again:
  assumes "has_prompt req" and "remote_addr req = Some ip"
    and "DAILY_LIMIT \<le> tracker_get (usage_tracker s) (quota_key (digest ip) d)"
    and "d' \<noteq> d"
    and "tracker_get (usage_tracker s) (quota_key (digest ip) d') = 0"
    and "now_check w = d'" and "now_remaining w = d'"
  shows "quota_key (digest ip) d' \<noteq> quota_key (digest ip) d \<and>
         fst (check_rate_limit (digest ip) d s) = False \<and>
         fst (check_rate_limit (digest ip) d' s) = True \<and>
         status (fst (generate_command digest cfg w req s)) \<noteq> 429 \<and>
         (status (fst (generate_command digest cfg w req s)) = 200 \<longrightarrow>
            int_field (fst (generate_command digest cfg w req s)) ''remaining_requests''
              = Some (DAILY_LIMIT - 1)) \<and>
         tracker_get (usage_tracker (snd (generate_command digest cfg w req s)))
            (quota_key (digest ip) d') = 1"
proof -
  obtain r s' where g: "generate_command digest cfg w req s = (r, s')"
    by (cases "generate_command digest cfg w req s")
  have lt: "tracker_get (usage_tracker s) (quota_key (digest ip) (now_check w)) < DAILY_LIMIT"
    using assms(5,6) by (simp add: DAILY_LIMIT_def)
  have k: "quota_key (digest ip) d' \<noteq> quota_key (digest ip) d"
    using assms(4) quota_key_inj_day by blast
  have c1: "fst (check_rate_limit (digest ip) d s) = False"
    using check_rate_limit_over[OF assms(3)] by simp
  have c2: "fst (check_rate_limit (digest ip) d' s) = True"
    using check_rate_limit_under[of s "digest ip" d'] lt assms(6) by simp
  from generate_command_under(1)[OF assms(1,2) lt g]
  have cnt: "tracker_get (usage_tracker s') (quota_key (digest ip) d') = 1"
    using assms(5,6) by (simp add: tracker_get_def)
  have st: "status r = 200 \<or> status r = 500"
    by (rule generate_command_under(3)[OF assms(1,2) lt g])
  have rem: "int_field r ''remaining_requests'' = Some (DAILY_LIMIT - 1)" if "status r = 200"
    using generate_command_under(4)[OF assms(1,2) lt g that] cnt assms(7) by simp
  from k c1 c2 st rem cnt show ?thesis unfolding g by auto
qed

theorem day_rollover_allows_again_witness:
  "generate_command id \<lparr>ANTHROPIC_API_KEY = Some ''sk-ant'', OPENAI_API_KEY = None\<rparr>
      \<lparr>now_check = ''2024-05-02'', now_remaining = ''2024-05-02'',
        anthropic_reply = Ok_text ''ls -la'', openai_reply = Ok_text ''ls''\<rparr>
      \<lparr>get_json = Inr (JObj [(''prompt'', JStr ''list files'')]), remote_addr = Some ''10.0.0.7''\<rparr>
      \<lparr>usage_tracker = [''10.0.0.7:2024-05-01'' \<mapsto> 50], trace = []\<rparr>
    = (\<lparr>status = 200, body = [(''command'', JStr ''ls -la''), (''remaining_requests'', JInt 49)]\<rparr>,
       \<lparr>usage_tracker = [''10.0.0.7:2024-05-01'' \<mapsto> 50, ''10.0.0.7:2024-05-02'' \<mapsto> 1],
         trace = [Quota_increment ''10.0.0.7:2024-05-02'', Net_call Anthropic]\<rparr>) \<and>
   int_field (fst (generate_command id \<lparr>ANTHROPIC_API_KEY = Some ''sk-ant'', OPENAI_API_KEY = None\<rparr>
      \<lparr>now_check = ''2024-05-02'', now_remaining = ''2024-05-02'',
        anthropic_reply = Ok_text ''ls -la'', openai_reply = Ok_text ''ls''\<rparr>
      \<lparr>get_json = Inr (JObj [(''prompt'', JStr ''list files'')]), remote_addr = Some ''10.0.0.7''\<rparr>
      \<lparr>usage_tracker = [''10.0.0.7:2024-05-01'' \<mapsto> 50], trace = []\<rparr>)) ''remaining_requests''
    = Some (DAILY_LIMIT - 1)"
proof -
  let ?cfg = "\<lparr>ANTHROPIC_API_KEY = Some ''sk-ant'', OPENAI_API_KEY = None\<rparr>"
  let ?w = "\<lparr>now_check = ''2024-05-02'', now_remaining = ''2024-05-02'',
        anthropic_reply = Ok_text ''ls -la'', openai_reply = Ok_text ''ls''\<rparr>"
  let ?req = "\<lparr>get_json = Inr (JObj [(''prompt'', JStr ''list files'')]), remote_addr = Some ''10.0.0.7''\<rparr>"
  let ?s = "\<lparr>usage_tracker = [''10.0.0.7:2024-05-01'' \<mapsto> 50::int], trace = []\<rparr>"
  have ev: "generate_command id ?cfg ?w ?req ?s
    = (\<lparr>status = 200, body = [(''command'', JStr ''ls -la''), (''remaining_requests'', JInt 49)]\<rparr>,
       \<lparr>usage_tracker = [''10.0.0.7:2024-05-01'' \<mapsto> 50, ''10.0.0.7:2024-05-02'' \<mapsto> 1],
         trace = [Quota_increment ''10.0.0.7:2024-05-02'', Net_call Anthropic]\<rparr>)"
    by (simp add: server_eval strip_def isspace_def)
  have hp: "has_prompt ?req" by (simp add: has_prompt_def)
  have ra: "remote_addr ?req = Some ''10.0.0.7''" by simp
  have at: "DAILY_LIMIT \<le> tracker_get (usage_tracker ?s) (quota_key (id ''10.0.0.7'') ''2024-05-01'')"
    by (simp add: tracker_get_def quota_key_def DAILY_LIMIT_def)
  have ne: "''2024-05-02'' \<noteq> ''2024-05-01''" by simp
  have z: "tracker_get (usage_tracker ?s) (quota_key (id ''10.0.0.7'') ''2024-05-02'') = 0"
    by (simp add: tracker_get_def quota_key_def)
  have n1: "now_check ?w = ''2024-05-02''" and n2: "now_remaining ?w = ''2024-05-02''" by simp_all
  have s200: "status (fst (generate_command id ?cfg ?w ?req ?s)) = 200"
    unfolding ev by simp
  from day_rollover_allows_again[where digest=id and cfg="?cfg", OF hp ra at ne z n1 n2] s200
  have "int_field (fst (generate_command id ?cfg ?w ?req ?s)) ''remaining_requests''
          = Some (DAILY_LIMIT - 1)" by blast
  with ev show ?thesis by blast
qed

text \<open>
  Claim C1 says that whenever the primary call fails with both keys configured, one
  fallback call is made. The handler falls back only when the message of the exception
  starts with \<^verbatim>\<open>API error\<close> (line 128). Here the request to Anthropic fails in transport:
  the answer is a 500 with that failure's message after one call, and OpenAI, whose key
  is configured, is not called.
\<close>

theorem no_fallback_on_other_failure_counterexample:
  "truthy_str (ANTHROPIC_API_KEY \<lparr>ANTHROPIC_API_KEY = Some ''sk-ant'', OPENAI_API_KEY = Some ''sk-oa''\<rparr>) \<and>
   truthy_str (OPENAI_API_KEY \<lparr>ANTHROPIC_API_KEY = Some ''sk-ant'', OPENAI_API_KEY = Some ''sk-oa''\<rparr>) \<and>
   generate_command id \<lparr>ANTHROPIC_API_KEY = Some ''sk-ant'', OPENAI_API_KEY = Some ''sk-oa''\<rparr>
      \<lparr>now_check = ''2024-05-01'', now_remaining = ''2024-05-01'',
        anthropic_reply = Raises ''Connection refused'', openai_reply = Ok_text ''ls -la''\<rparr>
      \<lparr>get_json = Inr (JObj [(''prompt'', JStr ''list files'')]), remote_addr = Some ''10.0.0.7''\<rparr>
      \<lparr>usage_tracker = Map.empty, trace = []\<rparr>
    = (\<lparr>status = 500, body = [(''error'', JStr ''Connection refused'')]\<rparr>,
       \<lparr>usage_tracker = [''10.0.0.7:2024-05-01'' \<mapsto> 1],
         trace = [Quota_increment ''10.0.0.7:2024-05-01'', Net_call Anthropic]\<rparr>)"
  by (simp add: server_eval)

text \<open>
  Claim C1, amended. With both keys configured, a request that passes the rate-limit check
  and whose primary call (to Anthropic) raises an exception whose message starts with
  \<^verbatim>\<open>API error\<close>, as a non-200 reply does, is followed by exactly one call to OpenAI: the
  trace of the request is the quota increment, the call to Anthropic, the call to OpenAI,
  two calls in all. If that call fails as well, the answer is a 500 whose message is
  \<^verbatim>\<open>Both APIs failed:\<close> followed by the message of the fallback's failure; if it succeeds,
  the answer is a 200 with its command. A primary failure with any other message gets no
  fallback: one call, and a 500 with that message.
\<close>

theorem fallback_once_on_api_error:
  assumes "has_prompt req" and "remote_addr req = Some ip"
    and "tracker_get (usage_tracker s) (quota_key (digest ip) (now_check w)) < DAILY_LIMIT"
    and "truthy_str (ANTHROPIC_API_KEY cfg)" and "truthy_str (OPENAI_API_KEY cfg)"
    and "vendor_result (anthropic_reply w) = Inl e"
  shows "(startswith e ''API error'' \<longrightarrow>
            trace (snd (generate_command digest cfg w req s))
              = trace s @ [Quota_increment (quota_key (digest ip) (now_check w)),
                           Net_call Anthropic, Net_call Openai] \<and>
            length (net_calls (trace (snd (generate_command digest cfg w req s))))
              = length (net_calls (trace s)) + 2 \<and>
            (\<forall>fe. vendor_result (openai_reply w) = Inl fe \<longrightarrow>
               fst (generate_command digest cfg w req s)
                 = jsonify_error 500 (''Both APIs failed: '' @ fe)) \<and>
            (\<forall>c. vendor_result (openai_reply w) = Inr c \<longrightarrow>
               status (fst (generate_command digest cfg w req s)) = 200 \<and>
               map_of (body (fst (generate_command digest cfg w req s))) ''command'' = Some (JStr c))) \<and>
         (\<not> startswith e ''API error'' \<longrightarrow>
            trace (snd (generate_command digest cfg w req s))
              = trace s @ [Quota_increment (quota_key (digest ip) (now_check w)), Net_call Anthropic] \<and>
            fst (generate_command digest cfg w req s) = jsonify_error 500 e)"
  using assms
  by (cases "vendor_result (openai_reply w)")
     (simp_all add: generate_command_with_prompt check_rate_limit_under
        generate_with_fallback_anthropic net_calls_def Let_def)

theorem fallback_once_on_api_error_witness:
  "fst (generate_command id \<lparr>ANTHROPIC_API_KEY = Some ''sk-ant'', OPENAI_API_KEY = Some ''sk-oa''\<rparr>
      \<lparr>now_check = ''2024-05-01'', now_remaining = ''2024-05-01'',
        anthropic_reply = Api_error ''overloaded'', openai_reply = Api_error ''quota exceeded''\<rparr>
      \<lparr>get_json = Inr (JObj [(''prompt'', JStr ''list files'')]), remote_addr = Some ''10.0.0.7''\<rparr>
      \<lparr>usage_tracker = Map.empty, trace = []\<rparr>)
    = jsonify_error 500 ''Both APIs failed: API error: quota exceeded'' \<and>
   trace (snd (generate_command id \<lparr>ANTHROPIC_API_KEY = Some ''sk-ant'', OPENAI_API_KEY = Some ''sk-oa''\<rparr>
      \<lparr>now_check = ''2024-05-01'', now_remaining = ''2024-05-01'',
        anthropic_reply = Api_error ''overloaded'', openai_reply = Api_error ''quota exceeded''\<rparr>
      \<lparr>get_json = Inr (JObj [(''prompt'', JStr ''list files'')]), remote_addr = Some ''10.0.0.7''\<rparr>
      \<lparr>usage_tracker = Map.empty, trace = []\<rparr>))
    = [Quota_increment ''10.0.0.7:2024-05-01'', Net_call Anthropic, Net_call Openai]"
proof -
  let ?cfg = "\<lparr>ANTHROPIC_API_KEY = Some ''sk-ant'', OPENAI_API_KEY = Some ''sk-oa''\<rparr>"
  let ?w = "\<lparr>now_check = ''2024-05-01'', now_remaining = ''2024-05-01'',
        anthropic_reply = Api_error ''overloaded'', openai_reply = Api_error ''quota exceeded''\<rparr>"
  let ?req = "\<lparr>get_json = Inr (JObj [(''prompt'', JStr ''list files'')]), remote_addr = Some ''10.0.0.7''\<rparr>"
  let ?s = "\<lparr>usage_tracker = Map.empty, trace = []\<rparr> :: server_state"
  have hp: "has_prompt ?req" by (simp add: has_prompt_def)
  have ra: "remote_addr ?req = Some ''10.0.0.7''" by simp
  have lt: "tracker_get (usage_tracker ?s) (quota_key (id ''10.0.0.7'') (now_check ?w)) < DAILY_LIMIT"
    by (simp add: tracker_get_def DAILY_LIMIT_def)
  have ka: "truthy_str (ANTHROPIC_API_KEY ?cfg)" and ko: "truthy_str (OPENAI_API_KEY ?cfg)"
    by (simp_all add: truthy_str_def)
  have pe: "vendor_result (anthropic_reply ?w) = Inl ''API error: overloaded''"
    by (simp add: vendor_result_def)
  have sw: "startswith ''API error: overloaded'' ''API error''"
    by (simp add: startswith_def)
  have fe: "vendor_result (openai_reply ?w) = Inl ''API error: quota exceeded''"
    by (simp add: vendor_result_def)
  have k: "quota_key (id ''10.0.0.7'') (now_check ?w) = ''10.0.0.7:2024-05-01''"
    by (simp add: quota_key_def)
  note t = fallback_once_on_api_error[where digest=id, OF hp ra lt ka ko pe]
  from t sw have a: "trace (snd (generate_command id ?cfg ?w ?req ?s))
              = trace ?s @ [Quota_increment (quota_key (id ''10.0.0.7'') (now_check ?w)),
                           Net_call Anthropic, Net_call Openai]" by blast
  from t sw fe have b: "fst (generate_command id ?cfg ?w ?req ?s)
      = jsonify_error 500 (''Both APIs failed: '' @ ''API error: quota exceeded'')" by blast
  from a have a': "trace (snd (generate_command id ?cfg ?w ?req ?s))
      = [Quota_increment ''10.0.0.7:2024-05-01'', Net_call Anthropic, Net_call Openai]"
    unfolding k by simp
  from b have b': "fst (generate_command id ?cfg ?w ?req ?s)
      = jsonify_error 500 ''Both APIs failed: API error: quota exceeded''" by simp
  from a' b' show ?thesis by blast
qed

text \<open>
  Claim C4 says that a request whose prompt is absent or empty is answered 400 with no
  quota increment and no provider call. The handler tests only whether the body is falsy
  or lacks the key \<^verbatim>\<open>prompt\<close> (line 105). A body \<^verbatim>\<open>{"prompt": ""}\<close> passes that test: the
  quota is incremented, Anthropic is called with the empty prompt, and the answer is 200.
\<close>

theorem empty_prompt_accepted_counterexample:
  "generate_command id \<lparr>ANTHROPIC_API_KEY = Some ''sk-ant'', OPENAI_API_KEY = None\<rparr>
      \<lparr>now_check = ''2024-05-01'', now_remaining = ''2024-05-01'',
        anthropic_reply = Ok_text ''ls'', openai_reply = Ok_text ''ls''\<rparr>
      \<lparr>get_json = Inr (JObj [(''prompt'', JStr '''')]), remote_addr = Some ''10.0.0.7''\<rparr>
      \<lparr>usage_tracker = Map.empty, trace = []\<rparr>
    = (\<lparr>status = 200, body = [(''command'', JStr ''ls''), (''remaining_requests'', JInt 49)]\<rparr>,
       \<lparr>usage_tracker = [''10.0.0.7:2024-05-01'' \<mapsto> 1],
         trace = [Quota_increment ''10.0.0.7:2024-05-01'', Net_call Anthropic]\<rparr>)"
  by (simp add: server_eval strip_def isspace_def)

text \<open>
  Claim C4, amended. A request whose prompt is absent, that is, whose parsed body is falsy
  (\<^verbatim>\<open>null\<close>, an empty object, ...) or is an object without the key \<^verbatim>\<open>prompt\<close>, is
  answered 400 with the error \<^verbatim>\<open>Missing prompt\<close>, and the state is as before: no quota
  increment and no provider call. An empty string under the key \<^verbatim>\<open>prompt\<close> is a prompt
  like any other.
\<close>

theorem missing_prompt_rejected:
  assumes "get_json req = Inr data"
    and "\<not> truthy data \<or> (\<exists>kvs. data = JObj kvs \<and> map_of kvs ''prompt'' = None)"
  shows "generate_command digest cfg w req s = (jsonify_error 400 ''Missing prompt'', s) \<and>
         status (jsonify_error 400 ''Missing prompt'') = 400"
  using assms by (auto simp: generate_command_def jsonify_error_def)

theorem missing_prompt_rejected_witness:
  "generate_command id \<lparr>ANTHROPIC_API_KEY = Some ''sk-ant'', OPENAI_API_KEY = None\<rparr>
      \<lparr>now_check = ''2024-05-01'', now_remaining = ''2024-05-01'',
        anthropic_reply = Ok_text ''ls'', openai_reply = Ok_text ''ls''\<rparr>
      \<lparr>get_json = Inr (JObj [(''text'', JStr ''list files'')]), remote_addr = Some ''10.0.0.7''\<rparr>
      \<lparr>usage_tracker = Map.empty, trace = []\<rparr>
    = (\<lparr>status = 400, body = [(''error'', JStr ''Missing prompt'')]\<rparr>,
       \<lparr>usage_tracker = Map.empty, trace = []\<rparr>) \<and>
   generate_command id \<lparr>ANTHROPIC_API_KEY = Some ''sk-ant'', OPENAI_API_KEY = None\<rparr>
      \<lparr>now_check = ''2024-05-01'', now_remaining = ''2024-05-01'',
        anthropic_reply = Ok_text ''ls'', openai_reply = Ok_text ''ls''\<rparr>
      \<lparr>get_json = Inr JNull, remote_addr = Some ''10.0.0.7''\<rparr>
      \<lparr>usage_tracker = Map.empty, trace = []\<rparr>
    = (\<lparr>status = 400, body = [(''error'', JStr ''Missing prompt'')]\<rparr>,
       \<lparr>usage_tracker = Map.empty, trace = []\<rparr>)"
proof -
  let ?cfg = "\<lparr>ANTHROPIC_API_KEY = Some ''sk-ant'', OPENAI_API_KEY = None\<rparr>"
  let ?w = "\<lparr>now_check = ''2024-05-01'', now_remaining = ''2024-05-01'',
        anthropic_reply = Ok_text ''ls'', openai_reply = Ok_text ''ls''\<rparr>"
  let ?r1 = "\<lparr>get_json = Inr (JObj [(''text'', JStr ''list files'')]), remote_addr = Some ''10.0.0.7''\<rparr>"
  let ?r2 = "\<lparr>get_json = Inr JNull, remote_addr = Some ''10.0.0.7''\<rparr>"
  let ?s = "\<lparr>usage_tracker = Map.empty, trace = []\<rparr> :: server_state"
  have g1: "get_json ?r1 = Inr (JObj [(''text'', JStr ''list files'')])" by simp
  have h1: "\<not> truthy (JObj [(''text'', JStr ''list files'')]) \<or>
      (\<exists>kvs. JObj [(''text'', JStr ''list files'')] = JObj kvs \<and> map_of kvs ''prompt'' = None)"
    by simp
  have g2: "get_json ?r2 = Inr JNull" by simp
  have h2: "\<not> truthy JNull \<or> (\<exists>kvs. JNull = JObj kvs \<and> map_of kvs ''prompt'' = None)"
    by simp
  from missing_prompt_rejected[OF g1 h1, of id ?cfg ?w ?s]
       missing_prompt_rejected[OF g2 h2, of id ?cfg ?w ?s]
  show ?thesis by (simp add: jsonify_error_def)
qed

text \<open>
  Claim C6 says that with neither key configured every dispatch ends in a configuration
  error. The server checks the quota before it looks at the keys: for a caller at the
  limit (a state the server reaches after 50 requests, which are counted even when no
  key is configured) the answer is 429, not the 500 of the missing keys.
\<close>

theorem rate_limit_before_config_counterexample:
  "\<not> truthy_str (ANTHROPIC_API_KEY \<lparr>ANTHROPIC_API_KEY = None, OPENAI_API_KEY = None\<rparr>) \<and>
   \<not> truthy_str (OPENAI_API_KEY \<lparr>ANTHROPIC_API_KEY = None, OPENAI_API_KEY = None\<rparr>) \<and>
   generate_command id \<lparr>ANTHROPIC_API_KEY = None, OPENAI_API_KEY = None\<rparr>
      \<lparr>now_check = ''2024-05-01'', now_remaining = ''2024-05-01'',
        anthropic_reply = Ok_text ''ls'', openai_reply = Ok_text ''ls''\<rparr>
      \<lparr>get_json = Inr (JObj [(''prompt'', JStr ''list files'')]), remote_addr = Some ''10.0.0.7''\<rparr>
      \<lparr>usage_tracker = [''10.0.0.7:2024-05-01'' \<mapsto> 50], trace = []\<rparr>
    = (\<lparr>status = 429,
        body = [(''error'', JStr ''Rate limit exceeded''),
                (''message'', JStr ''Daily limit of 50 requests reached. Try again tomorrow.'')]\<rparr>,
       \<lparr>usage_tracker = [''10.0.0.7:2024-05-01'' \<mapsto> 50], trace = []\<rparr>)"
  by (simp add: server_eval) code_simp

text \<open>
  Claim C6, amended. With neither key configured: the server answers every request that
  has a prompt and passes the rate-limit check with a 500 whose error is
  \<^verbatim>\<open>No API keys configured on server\<close>, and no request at all makes it send anything to a
  vendor; \<^verbatim>\<open>lal.py\<close>, given a prompt, sends nothing to a vendor and prints a configuration
  error: the exception of \<^verbatim>\<open>get_ai_provider\<close> with the hint when no provider is forced,
  "key not set" for the forced provider otherwise.
\<close>

theorem no_keys_config_error:
  assumes "\<not> truthy_str (ANTHROPIC_API_KEY cfg)" and "\<not> truthy_str (OPENAI_API_KEY cfg)"
    and "\<not> truthy_str (env_anthropic_key env)" and "\<not> truthy_str (env_openai_key env)"
  shows "(has_prompt req \<and> remote_addr req = Some ip \<and>
          tracker_get (usage_tracker s) (quota_key (digest ip) (now_check w)) < DAILY_LIMIT \<longrightarrow>
            fst (generate_command digest cfg w req s)
              = jsonify_error 500 ''No API keys configured on server'') \<and>
         net_calls (trace (snd (generate_command digest cfg w req s))) = net_calls (trace s) \<and>
         net_calls (lal_main a env) = [] \<and>
         (truthy_str (prompt a) \<and> \<not> config a \<longrightarrow>
            (provider a = None \<longrightarrow>
               lal_main a env =
                 [Print (Error_text ''No AI provider configured. Set OPENAI_API_KEY or ANTHROPIC_API_KEY environment variable.''),
                  Print Hint_run_config]) \<and>
            (\<forall>v. provider a = Some v \<longrightarrow> lal_main a env = [Print (Key_not_set v)]))"
proof -
  have srv: "fst (generate_command digest cfg w req s)
              = jsonify_error 500 ''No API keys configured on server''"
    if "has_prompt req" "remote_addr req = Some ip"
       "tracker_get (usage_tracker s) (quota_key (digest ip) (now_check w)) < DAILY_LIMIT"
    using that assms(1,2)
    by (simp add: generate_command_with_prompt check_rate_limit_under generate_with_fallback_no_keys)
  have calls: "net_calls (trace (snd (generate_command digest cfg w req s))) = net_calls (trace s)"
    by (rule generate_command_no_keys_trace[OF assms(1,2)])
  have gp: "get_ai_provider env = Inl ''No AI provider configured. Set OPENAI_API_KEY or ANTHROPIC_API_KEY environment variable.''"
    using assms(3,4) by (simp add: get_ai_provider_def)
  have hint: "lal_except env ''No AI provider configured. Set OPENAI_API_KEY or ANTHROPIC_API_KEY environment variable.''
       = [Print (Error_text ''No AI provider configured. Set OPENAI_API_KEY or ANTHROPIC_API_KEY environment variable.''),
          Print Hint_run_config]"
    by (simp add: lal_except_def markup_error_def startswith_def)
  have sel: "select_provider a env =
      (case provider a of None \<Rightarrow> Selection_raises ''No AI provider configured. Set OPENAI_API_KEY or ANTHROPIC_API_KEY environment variable.''
       | Some v \<Rightarrow> Print_and_return (Key_not_set v))"
    using assms(3,4) gp by (simp add: select_provider_def split: option.splits vendor.splits)
  have cli0: "net_calls (lal_main a env) = []"
    unfolding lal_main_def sel
    by (simp add: net_calls_simps net_calls_lal_except split: option.splits)
  have cli1: "lal_main a env =
                 [Print (Error_text ''No AI provider configured. Set OPENAI_API_KEY or ANTHROPIC_API_KEY environment variable.''),
                  Print Hint_run_config]"
    if "truthy_str (prompt a)" "\<not> config a" "provider a = None"
    using that unfolding lal_main_def sel hint[symmetric] by simp
  have cli2: "lal_main a env = [Print (Key_not_set v)]"
    if "truthy_str (prompt a)" "\<not> config a" "provider a = Some v" for v
    using that unfolding lal_main_def sel by simp
  from srv calls cli0 cli1 cli2 show ?thesis by blast
qed

theorem no_keys_config_error_witness:
  "fst (generate_command id \<lparr>ANTHROPIC_API_KEY = None, OPENAI_API_KEY = Some []\<rparr>
      \<lparr>now_check = ''2024-05-01'', now_remaining = ''2024-05-01'',
        anthropic_reply = Ok_text ''ls'', openai_reply = Ok_text ''ls''\<rparr>
      \<lparr>get_json = Inr (JObj [(''prompt'', JStr ''list files'')]), remote_addr = Some ''10.0.0.7''\<rparr>
      \<lparr>usage_tracker = Map.empty, trace = []\<rparr>)
    = \<lparr>status = 500, body = [(''error'', JStr ''No API keys configured on server'')]\<rparr> \<and>
   lal_main \<lparr>prompt = Some ''list files'', execute = True, provider = Some Openai,
             model = None, config = False\<rparr>
      \<lparr>env_anthropic_key = None, env_openai_key = None,
        sdk_anthropic = Sdk_text ''ls'', sdk_openai = Sdk_text ''ls'', confirm_answer = Inr True,
        rich_error = Map.empty\<rparr>
    = [Print (Key_not_set Openai)] \<and>
   net_calls (lal_main \<lparr>prompt = Some ''list files'', execute = True, provider = None,
             model = None, config = False\<rparr>
      \<lparr>env_anthropic_key = None, env_openai_key = None,
        sdk_anthropic = Sdk_text ''ls'', sdk_openai = Sdk_text ''ls'', confirm_answer = Inr True,
        rich_error = Map.empty\<rparr>) = []"
proof -
  let ?cfg = "\<lparr>ANTHROPIC_API_KEY = None, OPENAI_API_KEY = Some []\<rparr>"
  let ?w = "\<lparr>now_check = ''2024-05-01'', now_remaining = ''2024-05-01'',
        anthropic_reply = Ok_text ''ls'', openai_reply = Ok_text ''ls''\<rparr>"
  let ?req = "\<lparr>get_json = Inr (JObj [(''prompt'', JStr ''list files'')]), remote_addr = Some ''10.0.0.7''\<rparr>"
  let ?s = "\<lparr>usage_tracker = Map.empty, trace = []\<rparr> :: server_state"
  let ?env = "\<lparr>env_anthropic_key = None, env_openai_key = None,
        sdk_anthropic = Sdk_text ''ls'', sdk_openai = Sdk_text ''ls'', confirm_answer = Inr True,
        rich_error = Map.empty\<rparr>"
  let ?a1 = "\<lparr>prompt = Some ''list files'', execute = True, provider = Some Openai,
             model = None, config = False\<rparr>"
  let ?a2 = "\<lparr>prompt = Some ''list files'', execute = True, provider = None,
             model = None, config = False\<rparr>"
  have k: "\<not> truthy_str (ANTHROPIC_API_KEY ?cfg)" "\<not> truthy_str (OPENAI_API_KEY ?cfg)"
    "\<not> truthy_str (env_anthropic_key ?env)" "\<not> truthy_str (env_openai_key ?env)"
    by (simp_all add: truthy_str_def)
  have hp: "has_prompt ?req" by (simp add: has_prompt_def)
  have ra: "remote_addr ?req = Some ''10.0.0.7''" by simp
  have lt: "tracker_get (usage_tracker ?s) (quota_key (id ''10.0.0.7'') (now_check ?w)) < DAILY_LIMIT"
    by (simp add: tracker_get_def DAILY_LIMIT_def)
  have pa: "truthy_str (prompt ?a1)" "\<not> config ?a1" "provider ?a1 = Some Openai"
    by (simp_all add: truthy_str_def)
  from no_keys_config_error[where digest=id and ip="''10.0.0.7''" and a="?a1", OF k] hp ra lt
  have a: "fst (generate_command id ?cfg ?w ?req ?s)
             = jsonify_error 500 ''No API keys configured on server''" by blast
  from no_keys_config_error[where digest=id and ip="''10.0.0.7''" and a="?a1", OF k] pa
  have b: "lal_main ?a1 ?env = [Print (Key_not_set Openai)]" by blast
  from no_keys_config_error[where digest=id and ip="''10.0.0.7''" and a="?a2", OF k]
  have c: "net_calls (lal_main ?a2 ?env) = []" by blast
  from a b c show ?thesis by (simp add: jsonify_error_def)
qed

subsection \<open>The command-line tools\<close>

text \<open>
  Claim C5. Provider selection in \<^verbatim>\<open>lal.py\<close>, for every preference and every presence of
  the keys. A forced vendor whose key is present: that vendor's client is selected and a
  run with a prompt sends its one request to that vendor (none when the SDK fails before
  sending). A forced vendor whose key is absent: the tool prints that the key is not set
  and returns, with no request to any vendor, whatever the other key is. No preference:
  the Anthropic client whenever the Anthropic key is present, otherwise the OpenAI
  client when the OpenAI key is present.
\<close>

theorem provider_selection:
  "(\<forall>v. provider a = Some v \<and> truthy_str (env_key v env) \<longrightarrow>
      (\<exists>ai. select_provider a env = Selected ai \<and> provider_vendor ai = v) \<and>
      (truthy_str (prompt a) \<and> \<not> config a \<longrightarrow>
         net_calls (lal_main a env) = (if request_sent (sdk_of v env) then [v] else []))) \<and>
   (\<forall>v. provider a = Some v \<and> \<not> truthy_str (env_key v env) \<longrightarrow>
      select_provider a env = Print_and_return (Key_not_set v) \<and>
      net_calls (lal_main a env) = [] \<and>
      (truthy_str (prompt a) \<and> \<not> config a \<longrightarrow> lal_main a env = [Print (Key_not_set v)])) \<and>
   (provider a = None \<and> truthy_str (env_anthropic_key env) \<longrightarrow>
      select_provider a env
        = Selected (AnthropicProvider (the (env_anthropic_key env)) ''claude-3-5-haiku-20241022'') \<and>
      (truthy_str (prompt a) \<and> \<not> config a \<longrightarrow>
         net_calls (lal_main a env) = (if request_sent (sdk_anthropic env) then [Anthropic] else []))) \<and>
   (provider a = None \<and> \<not> truthy_str (env_anthropic_key env) \<and> truthy_str (env_openai_key env) \<longrightarrow>
      select_provider a env
        = Selected (OpenAIProvider (the (env_openai_key env)) ''gpt-4o-mini'') \<and>
      (truthy_str (prompt a) \<and> \<not> config a \<longrightarrow>
         net_calls (lal_main a env) = (if request_sent (sdk_openai env) then [Openai] else [])))"
proof -
  have p1: "(\<exists>ai. select_provider a env = Selected ai \<and> provider_vendor ai = v) \<and>
      (truthy_str (prompt a) \<and> \<not> config a \<longrightarrow>
         net_calls (lal_main a env) = (if request_sent (sdk_of v env) then [v] else []))"
    if h: "provider a = Some v" "truthy_str (env_key v env)" for v
  proof -
    have "\<exists>ai. select_provider a env = Selected ai \<and> provider_vendor ai = v"
      using h by (cases v) (simp_all add: select_provider_def)
    then obtain ai where ai: "select_provider a env = Selected ai" "provider_vendor ai = v" by blast
    from lal_main_selected_calls[OF ai(1)] ai show ?thesis by auto
  qed
  have p2: "select_provider a env = Print_and_return (Key_not_set v) \<and>
      net_calls (lal_main a env) = [] \<and>
      (truthy_str (prompt a) \<and> \<not> config a \<longrightarrow> lal_main a env = [Print (Key_not_set v)])"
    if h: "provider a = Some v" "\<not> truthy_str (env_key v env)" for v
  proof -
    have sel: "select_provider a env = Print_and_return (Key_not_set v)"
      using h by (cases v) (simp_all add: select_provider_def)
    then have "net_calls (lal_main a env) = []"
      by (intro lal_main_no_selection_calls) simp
    moreover have "lal_main a env = [Print (Key_not_set v)]" if "truthy_str (prompt a)" "\<not> config a"
      using that sel by (simp add: lal_main_def)
    ultimately show ?thesis using sel by blast
  qed
  have p3: "select_provider a env
        = Selected (AnthropicProvider (the (env_anthropic_key env)) ''claude-3-5-haiku-20241022'') \<and>
      (truthy_str (prompt a) \<and> \<not> config a \<longrightarrow>
         net_calls (lal_main a env) = (if request_sent (sdk_anthropic env) then [Anthropic] else []))"
    if h: "provider a = None" "truthy_str (env_anthropic_key env)"
  proof -
    have sel: "select_provider a env
        = Selected (AnthropicProvider (the (env_anthropic_key env)) ''claude-3-5-haiku-20241022'')"
      using h by (simp add: select_provider_def get_ai_provider_def)
    from lal_main_selected_calls[OF sel] sel show ?thesis by simp
  qed
  have p4: "select_provider a env
        = Selected (OpenAIProvider (the (env_openai_key env)) ''gpt-4o-mini'') \<and>
      (truthy_str (prompt a) \<and> \<not> config a \<longrightarrow>
         net_calls (lal_main a env) = (if request_sent (sdk_openai env) then [Openai] else []))"
    if h: "provider a = None" "\<not> truthy_str (env_anthropic_key env)" "truthy_str (env_openai_key env)"
  proof -
    have sel: "select_provider a env
        = Selected (OpenAIProvider (the (env_openai_key env)) ''gpt-4o-mini'')"
      using h by (simp add: select_provider_def get_ai_provider_def)
    from lal_main_selected_calls[OF sel] sel show ?thesis by simp
  qed
  from p1 p2 p3 p4 show ?thesis by blast
qed

theorem provider_selection_witness:
  "lal_main \<lparr>prompt = Some ''list files'', execute = False, provider = Some Openai,
             model = None, config = False\<rparr>
      \<lparr>env_anthropic_key = Some ''sk-ant'', env_openai_key = None,
        sdk_anthropic = Sdk_text ''ls'', sdk_openai = Sdk_text ''ls'', confirm_answer = Inr True,
        rich_error = Map.empty\<rparr>
    = [Print (Key_not_set Openai)] \<and>
   net_calls (lal_main \<lparr>prompt = Some ''list files'', execute = False, provider = Some Openai,
             model = None, config = False\<rparr>
      \<lparr>env_anthropic_key = Some ''sk-ant'', env_openai_key = Some ''sk-oa'',
        sdk_anthropic = Sdk_text ''ls'', sdk_openai = Sdk_text ''ls'', confirm_answer = Inr True,
        rich_error = Map.empty\<rparr>)
    = [Openai] \<and>
   net_calls (lal_main \<lparr>prompt = Some ''list files'', execute = False, provider = None,
             model = None, config = False\<rparr>
      \<lparr>env_anthropic_key = Some ''sk-ant'', env_openai_key = Some ''sk-oa'',
        sdk_anthropic = Sdk_text ''ls'', sdk_openai = Sdk_text ''ls'', confirm_answer = Inr True,
        rich_error = Map.empty\<rparr>)
    = [Anthropic] \<and>
   net_calls (lal_main \<lparr>prompt = Some ''list files'', execute = False, provider = None,
             model = None, config = False\<rparr>
      \<lparr>env_anthropic_key = None, env_openai_key = Some ''sk-oa'',
        sdk_anthropic = Sdk_text ''ls'', sdk_openai = Sdk_text ''ls'', confirm_answer = Inr True,
        rich_error = Map.empty\<rparr>)
    = [Openai]"
proof -
  let ?forced = "\<lparr>prompt = Some ''list files'', execute = False, provider = Some Openai,
             model = None, config = False\<rparr>"
  let ?auto = "\<lparr>prompt = Some ''list files'', execute = False, provider = None,
             model = None, config = False\<rparr>"
  let ?only_ant = "\<lparr>env_anthropic_key = Some ''sk-ant'', env_openai_key = None,
        sdk_anthropic = Sdk_text ''ls'', sdk_openai = Sdk_text ''ls'', confirm_answer = Inr True,
        rich_error = Map.empty\<rparr>"
  let ?both = "\<lparr>env_anthropic_key = Some ''sk-ant'', env_openai_key = Some ''sk-oa'',
        sdk_anthropic = Sdk_text ''ls'', sdk_openai = Sdk_text ''ls'', confirm_answer = Inr True,
        rich_error = Map.empty\<rparr>"
  let ?only_oa = "\<lparr>env_anthropic_key = None, env_openai_key = Some ''sk-oa'',
        sdk_anthropic = Sdk_text ''ls'', sdk_openai = Sdk_text ''ls'', confirm_answer = Inr True,
        rich_error = Map.empty\<rparr>"
  have pf: "truthy_str (prompt ?forced)" "\<not> config ?forced" "provider ?forced = Some Openai"
    and pa: "truthy_str (prompt ?auto)" "\<not> config ?auto" "provider ?auto = None"
    by (simp_all add: truthy_str_def)
  have k1: "\<not> truthy_str (env_key Openai ?only_ant)" by (simp add: truthy_str_def)
  have k2: "truthy_str (env_key Openai ?both)" "request_sent (sdk_of Openai ?both)"
    by (simp_all add: truthy_str_def)
  have k3: "truthy_str (env_anthropic_key ?both)" "request_sent (sdk_anthropic ?both)"
    by (simp_all add: truthy_str_def)
  have k4: "\<not> truthy_str (env_anthropic_key ?only_oa)" "truthy_str (env_openai_key ?only_oa)"
    "request_sent (sdk_openai ?only_oa)"
    by (simp_all add: truthy_str_def)
  have a: "lal_main ?forced ?only_ant = [Print (Key_not_set Openai)]"
    using provider_selection[of ?forced ?only_ant] pf k1 by simp
  have b: "net_calls (lal_main ?forced ?both) = [Openai]"
    using provider_selection[of ?forced ?both] pf k2 by simp
  have c: "net_calls (lal_main ?auto ?both) = [Anthropic]"
    using provider_selection[of ?auto ?both] pa k3 by simp
  have d: "net_calls (lal_main ?auto ?only_oa) = [Openai]"
    using provider_selection[of ?auto ?only_oa] pa k4 by simp
  from a b c d show ?thesis by (intro conjI)
qed

text \<open>
  Claim C8. In both tools \<^verbatim>\<open>os.system\<close> is called only when the execute flag is set, the
  user has answered the confirmation affirmatively (\<^verbatim>\<open>Confirm.ask\<close> returns true in
  \<^verbatim>\<open>lal.py\<close>; the line read by \<^verbatim>\<open>lal_simple.py\<close> is \<^verbatim>\<open>y\<close> up to case) and a provider
  has returned a command; it is then called once, with that command. A run without the
  execute flag, or in which the confirmation is declined, calls it not at all.
\<close>

theorem shell_only_after_confirmation:
  "(shell_execs (lal_main a env) \<noteq> [] \<longrightarrow>
      execute a \<and> confirm_answer env = Inr True \<and>
      (\<exists>ai command. select_provider a env = Selected ai \<and>
         fst (provider_generate ai env) = Inr command \<and>
         shell_execs (lal_main a env) = [command])) \<and>
   (\<not> execute a \<or> confirm_answer env \<noteq> Inr True \<longrightarrow> shell_execs (lal_main a env) = []) \<and>
   (shell_execs (lal_simple_main argv senv) \<noteq> [] \<longrightarrow>
      simple_execute_flag argv \<and>
      (\<exists>response. input_line senv = Inr response \<and> lower response = ''y'') \<and>
      (\<exists>command tr. simple_choose (simple_provider argv) senv = Inr (Inr command, tr) \<and>
         shell_execs (lal_simple_main argv senv) = [command])) \<and>
   (\<not> simple_execute_flag argv \<or> (\<forall>response. input_line senv = Inr response \<longrightarrow> lower response \<noteq> ''y'')
      \<longrightarrow> shell_execs (lal_simple_main argv senv) = [])"
proof (intro conjI impI)
  assume ne: "shell_execs (lal_main a env) \<noteq> []"
  then have c: "\<not> config a \<and> truthy_str (prompt a) \<and> execute a \<and> confirm_answer env = Inr True"
    unfolding lal_main_shell by (simp split: if_splits)
  then show "execute a" and "confirm_answer env = Inr True" by simp_all
  from ne c obtain ai where ai: "select_provider a env = Selected ai"
    unfolding lal_main_shell by (cases "select_provider a env") simp_all
  from ne c ai obtain command where cm: "fst (provider_generate ai env) = Inr command"
    unfolding lal_main_shell by (cases "fst (provider_generate ai env)") simp_all
  from ne c ai cm have "shell_execs (lal_main a env) = [command]"
    unfolding lal_main_shell by (simp split: if_splits)
  with ai cm show "\<exists>ai command. select_provider a env = Selected ai \<and>
         fst (provider_generate ai env) = Inr command \<and>
         shell_execs (lal_main a env) = [command]" by blast
next
  assume "\<not> execute a \<or> confirm_answer env \<noteq> Inr True"
  then show "shell_execs (lal_main a env) = []"
    unfolding lal_main_shell by auto
next
  assume ne: "shell_execs (lal_simple_main argv senv) \<noteq> []"
  then have c: "2 \<le> length argv \<and> argv ! 1 \<noteq> ''--config'' \<and>
         (truthy_str (simple_anthropic_key senv) \<or> truthy_str (simple_openai_key senv)) \<and>
         simple_execute_flag argv \<and>
         (case input_line senv of Inr response \<Rightarrow> lower response = ''y'' | Inl e \<Rightarrow> False)"
    unfolding lal_simple_main_shell by (simp split: if_splits)
  then show "simple_execute_flag argv" by simp
  from c show "\<exists>response. input_line senv = Inr response \<and> lower response = ''y''"
    by (cases "input_line senv") simp_all
  from ne c obtain command tr where
    ch: "simple_choose (simple_provider argv) senv = Inr (Inr command, tr)"
    unfolding lal_simple_main_shell
    by (auto split: sum.splits prod.splits)
  with c have "shell_execs (lal_simple_main argv senv) = [command]"
    unfolding lal_simple_main_shell by simp
  with ch show "\<exists>command tr. simple_choose (simple_provider argv) senv = Inr (Inr command, tr) \<and>
         shell_execs (lal_simple_main argv senv) = [command]" by blast
next
  assume "\<not> simple_execute_flag argv \<or> (\<forall>response. input_line senv = Inr response \<longrightarrow> lower response \<noteq> ''y'')"
  then show "shell_execs (lal_simple_main argv senv) = []"
    unfolding lal_simple_main_shell by (auto split: sum.splits)
qed

theorem shell_only_after_confirmation_witness:
  "shell_execs (lal_main \<lparr>prompt = Some ''list files'', execute = True, provider = None,
             model = None, config = False\<rparr>
      \<lparr>env_anthropic_key = Some ''sk-ant'', env_openai_key = None,
        sdk_anthropic = Sdk_text '' ls -la '', sdk_openai = Sdk_text ''ls'', confirm_answer = Inr False,
        rich_error = Map.empty\<rparr>)
    = [] \<and>
   shell_execs (lal_simple_main [''lal_simple.py'', ''list files'', ''-e'']
      \<lparr>simple_anthropic_key = Some ''sk-ant'', simple_openai_key = None,
        http_anthropic = Http_text ''ls -la'', http_openai = Http_text ''ls'', input_line = Inr ''n''\<rparr>)
    = [] \<and>
   shell_execs (lal_simple_main [''lal_simple.py'', ''list files'']
      \<lparr>simple_anthropic_key = Some ''sk-ant'', simple_openai_key = None,
        http_anthropic = Http_text ''ls -la'', http_openai = Http_text ''ls'', input_line = Inr ''y''\<rparr>)
    = [] \<and>
   (\<exists>ai. select_provider \<lparr>prompt = Some ''list files'', execute = True, provider = None,
             model = None, config = False\<rparr>
          \<lparr>env_anthropic_key = Some ''sk-ant'', env_openai_key = None,
            sdk_anthropic = Sdk_text '' ls -la '', sdk_openai = Sdk_text ''ls'',
            confirm_answer = Inr True,
        rich_error = Map.empty\<rparr> = Selected ai \<and>
         fst (provider_generate ai
          \<lparr>env_anthropic_key = Some ''sk-ant'', env_openai_key = None,
            sdk_anthropic = Sdk_text '' ls -la '', sdk_openai = Sdk_text ''ls'',
            confirm_answer = Inr True,
        rich_error = Map.empty\<rparr>) = Inr ''ls -la'')"
proof -
  let ?a = "\<lparr>prompt = Some ''list files'', execute = True, provider = None,
             model = None, config = False\<rparr>"
  let ?no = "\<lparr>env_anthropic_key = Some ''sk-ant'', env_openai_key = None,
        sdk_anthropic = Sdk_text '' ls -la '', sdk_openai = Sdk_text ''ls'', confirm_answer = Inr False,
        rich_error = Map.empty\<rparr>"
  let ?yes = "\<lparr>env_anthropic_key = Some ''sk-ant'', env_openai_key = None,
        sdk_anthropic = Sdk_text '' ls -la '', sdk_openai = Sdk_text ''ls'', confirm_answer = Inr True,
        rich_error = Map.empty\<rparr>"
  let ?argv = "[''lal_simple.py'', ''list files'', ''-e'']"
  let ?bare = "[''lal_simple.py'', ''list files'']"
  let ?sn = "\<lparr>simple_anthropic_key = Some ''sk-ant'', simple_openai_key = None,
        http_anthropic = Http_text ''ls -la'', http_openai = Http_text ''ls'', input_line = Inr ''n''\<rparr>"
  let ?sy = "\<lparr>simple_anthropic_key = Some ''sk-ant'', simple_openai_key = None,
        http_anthropic = Http_text ''ls -la'', http_openai = Http_text ''ls'', input_line = Inr ''y''\<rparr>"
  have d1: "\<not> execute ?a \<or> confirm_answer ?no \<noteq> Inr True" by simp
  have n: "lower ''n'' = ''n''" by code_simp
  have d2: "\<not> simple_execute_flag ?argv \<or>
      (\<forall>response. input_line ?sn = Inr response \<longrightarrow> lower response \<noteq> ''y'')"
    by (simp add: n)
  have d3: "\<not> simple_execute_flag ?bare \<or>
      (\<forall>response. input_line ?sy = Inr response \<longrightarrow> lower response \<noteq> ''y'')"
    by (simp add: simple_execute_flag_def)
  have ran: "shell_execs (lal_main ?a ?yes) \<noteq> []"
    unfolding lal_run_accepted by (simp add: shell_execs_simps)
  have one: "shell_execs (lal_main ?a ?yes) = [''ls -la'']"
    unfolding lal_run_accepted by (simp add: shell_execs_simps)
  have a: "shell_execs (lal_main ?a ?no) = []"
    using shell_only_after_confirmation[of ?a ?no ?argv ?sn] d1 by blast
  have b: "shell_execs (lal_simple_main ?argv ?sn) = []"
    using shell_only_after_confirmation[of ?a ?no ?argv ?sn] d2 by blast
  have c: "shell_execs (lal_simple_main ?bare ?sy) = []"
    using shell_only_after_confirmation[of ?a ?no ?bare ?sy] d3 by blast
  from shell_only_after_confirmation[of ?a ?yes ?argv ?sn] ran
  have "\<exists>ai command. select_provider ?a ?yes = Selected ai \<and>
         fst (provider_generate ai ?yes) = Inr command \<and>
         shell_execs (lal_main ?a ?yes) = [command]" by blast
  then obtain ai command where "select_provider ?a ?yes = Selected ai"
    "fst (provider_generate ai ?yes) = Inr command" "shell_execs (lal_main ?a ?yes) = [command]"
    by blast
  with one have d: "\<exists>ai. select_provider ?a ?yes = Selected ai \<and>
         fst (provider_generate ai ?yes) = Inr ''ls -la''" by auto
  from a b c d show ?thesis by (intro conjI)
qed

end
